theory Spec2Isabelle
  imports Complex_Main
begin

section \<open>Starry Night: the canvas particle system of starry-night.js\<close>

text \<open>
  A shallow embedding of \<^verbatim>\<open>src/starry-night.js\<close>. The script keeps its scene in
  module-level variables (\<^verbatim>\<open>W\<close>, \<^verbatim>\<open>H\<close>, \<^verbatim>\<open>mouse\<close>, \<^verbatim>\<open>stars\<close>,
  \<^verbatim>\<open>shootingStars\<close>, \<^verbatim>\<open>vortexCenters\<close>, \<^verbatim>\<open>time\<close>, \<^verbatim>\<open>scrollDim\<close>) and mutates
  them from \<^verbatim>\<open>update\<close> and from four event listeners. Here the scene is a record that
  every function takes and returns.

  Numbers. A JavaScript Number is an IEEE-754 binary64 value. In the scene they are
  modelled as real numbers with exact arithmetic, so the branch structure, the list
  operations and the counters are those of the code while rounding is left out; the
  section on damping adds the binary64 rounding of the one multiplication whose
  rounding changes what can be said about it. The viewport sizes
  \<^verbatim>\<open>window.innerWidth\<close> and \<^verbatim>\<open>window.innerHeight\<close> are integers
  (the DOM attribute type is \<^verbatim>\<open>long\<close>), and so is what \<^verbatim>\<open>Math.floor\<close> returns.

  Randomness. Every call of \<^verbatim>\<open>Math.random()\<close> is an input of the model: the draws
  of one \<^verbatim>\<open>update\<close> are the fields of a record, the draws of \<^verbatim>\<open>initStars\<close> are a
  sequence indexed by the number of the call.
\<close>

subsection \<open>Data\<close>

text \<open>The object literal that \<^verbatim>\<open>makeStar\<close> returns.\<close>

record star =
  st_x :: real
  st_y :: real
  st_vx :: real
  st_vy :: real
  st_size :: real
  st_baseSize :: real
  st_color :: "nat \<times> nat \<times> nat"
  st_twinkleK :: real
  st_twinkleP :: real
  st_trail :: "(real \<times> real) list"
  st_maxTrail :: int

text \<open>The object literal that \<^verbatim>\<open>spawnShootingStar\<close> returns; a trail entry is
  \<^verbatim>\<open>{x, y, a}\<close>.\<close>

record shooting =
  sh_x :: real
  sh_y :: real
  sh_vx :: real
  sh_vy :: real
  sh_life :: real
  sh_decay :: real
  sh_trail :: "(real \<times> real \<times> real) list"
  sh_maxTrail :: int
  sh_size :: real

text \<open>An entry \<^verbatim>\<open>{x, y, str, r}\<close> of \<^verbatim>\<open>vortexCenters\<close>.\<close>

record vortex =
  vt_x :: real
  vt_y :: real
  vt_str :: real
  vt_r :: real

text \<open>\<^verbatim>\<open>mouse = { x: null, y: null }\<close>: \<open>None\<close> is \<^verbatim>\<open>null\<close>.\<close>

record mouse =
  mouse_x :: "real option"
  mouse_y :: "real option"

text \<open>
  A JavaScript Number that need not be finite, for \<^verbatim>\<open>scrollDim\<close>: the scroll listener
  divides by \<^verbatim>\<open>vh * 1.8\<close>, and a quotient by zero is an infinity or \<^verbatim>\<open>NaN\<close> in
  JavaScript (and \<open>0\<close> in HOL).
\<close>

datatype jsnum = Finite real | PosInfinity | NegInfinity | NaN

text \<open>The draws of one call of \<^verbatim>\<open>update\<close>, in the order of the calls of
  \<^verbatim>\<open>Math.random()\<close>: the spawn test, then the six of \<^verbatim>\<open>spawnShootingStar\<close>
  (made only when the test passes).\<close>

record frame_rand =
  fr_roll :: real
  fr_angle :: real
  fr_speed :: real
  fr_x :: real
  fr_y :: real
  fr_decay :: real
  fr_size :: real

record scene =
  sc_W :: int
  sc_H :: int
  sc_mouse :: mouse
  sc_stars :: "star list"
  sc_shootingStars :: "shooting list"
  sc_vortexCenters :: "vortex list"
  sc_time :: real
  sc_scrollDim :: jsnum

subsection \<open>Colour palette\<close>

definition PAL_gold :: "nat \<times> nat \<times> nat" where
  "PAL_gold = (253, 230, 138)"

definition PAL_brightGold :: "nat \<times> nat \<times> nat" where
  "PAL_brightGold = (255, 210, 60)"

definition PAL_white :: "nat \<times> nat \<times> nat" where
  "PAL_white = (255, 255, 245)"

definition PAL_paleBlue :: "nat \<times> nat \<times> nat" where
  "PAL_paleBlue = (170, 200, 255)"

subsection \<open>Resize and vortex layout\<close>

text \<open>\<^verbatim>\<open>resize()\<close>, given what \<^verbatim>\<open>window.innerWidth\<close> and
  \<^verbatim>\<open>window.innerHeight\<close> hold.\<close>

definition resize :: "int \<Rightarrow> int \<Rightarrow> scene \<Rightarrow> scene" where
  "resize innerWidth innerHeight sc =
     (let w = real_of_int innerWidth; h = real_of_int innerHeight in
      sc\<lparr>sc_W := innerWidth, sc_H := innerHeight,
         sc_vortexCenters :=
           [\<lparr>vt_x = w * 0.25, vt_y = h * 0.22, vt_str = 0.70, vt_r = w * 0.16\<rparr>,
            \<lparr>vt_x = w * 0.62, vt_y = h * 0.14, vt_str = - 0.55, vt_r = w * 0.14\<rparr>,
            \<lparr>vt_x = w * 0.45, vt_y = h * 0.48, vt_str = 0.45, vt_r = w * 0.18\<rparr>,
            \<lparr>vt_x = w * 0.12, vt_y = h * 0.60, vt_str = - 0.35, vt_r = w * 0.12\<rparr>,
            \<lparr>vt_x = w * 0.80, vt_y = h * 0.38, vt_str = 0.60, vt_r = w * 0.15\<rparr>]\<rparr>)"

subsection \<open>Star factory\<close>

text \<open>
  \<^verbatim>\<open>makeStar()\<close> calls \<^verbatim>\<open>Math.random()\<close> nine times: for the band, for the
  size inside the band, and for \<^verbatim>\<open>x\<close>, \<^verbatim>\<open>y\<close>, \<^verbatim>\<open>vx\<close>, \<^verbatim>\<open>vy\<close>,
  \<^verbatim>\<open>twinkleK\<close>, \<^verbatim>\<open>twinkleP\<close> and \<^verbatim>\<open>maxTrail\<close>. \<open>rnd k\<close> is the \<open>k\<close>-th draw.
\<close>

definition makeStar :: "int \<Rightarrow> int \<Rightarrow> (nat \<Rightarrow> real) \<Rightarrow> star" where
  "makeStar W H rnd =
     (let (col, sz, spd) =
        (if rnd 0 < 0.04 then (PAL_white, 2.2 + rnd 1 * 2.8, 0.25)
         else if rnd 0 < 0.14 then (PAL_paleBlue, 1 + rnd 1 * 1.8, 0.40)
         else if rnd 0 < 0.32 then (PAL_brightGold, 1 + rnd 1 * 2.2, 0.35)
         else (PAL_gold, 0.4 + rnd 1 * 1.6, 0.50))
      in \<lparr>st_x = rnd 2 * real_of_int W,
          st_y = rnd 3 * real_of_int H,
          st_vx = (rnd 4 - 0.5) * spd,
          st_vy = (rnd 5 - 0.5) * spd,
          st_size = sz,
          st_baseSize = sz,
          st_color = col,
          st_twinkleK = 0.018 + rnd 6 * 0.035,
          st_twinkleP = rnd 7 * pi * 2,
          st_trail = [],
          st_maxTrail = 12 + \<lfloor>rnd 8 * 18\<rfloor>\<rparr>)"

text \<open>
  The loop of \<^verbatim>\<open>initStars\<close>: \<^verbatim>\<open>for (let i = 0; i < count; i++) stars.push(makeStar())\<close>.
  Star number \<open>i\<close> takes the draws \<open>9 * i\<close> to \<open>9 * i + 8\<close> of the sequence.
\<close>

function initStars_loop ::
  "int \<Rightarrow> int \<Rightarrow> int \<Rightarrow> int \<Rightarrow> (nat \<Rightarrow> real) \<Rightarrow> star list \<Rightarrow> star list" where
  "initStars_loop i count W H rng acc =
     (if i < count
      then initStars_loop (i + 1) count W H rng
             (acc @ [makeStar W H (\<lambda>k. rng (9 * nat i + k))])
      else acc)"
  by pat_completeness auto
termination
  by (relation "measure (\<lambda>(i, count, W, H, rng, acc). nat (count - i))") auto

declare initStars_loop.simps [simp del]

definition star_count :: "int \<Rightarrow> int \<Rightarrow> int" where
  "star_count W H = min 280 \<lfloor>(real_of_int W * real_of_int H) / 5200\<rfloor>"

definition initStars :: "(nat \<Rightarrow> real) \<Rightarrow> scene \<Rightarrow> scene" where
  "initStars rng sc =
     sc\<lparr>sc_stars := initStars_loop 0 (star_count (sc_W sc) (sc_H sc)) (sc_W sc) (sc_H sc) rng []\<rparr>"

subsection \<open>Shooting star\<close>

definition spawnShootingStar :: "int \<Rightarrow> int \<Rightarrow> frame_rand \<Rightarrow> shooting" where
  "spawnShootingStar W H r =
     (let angle = pi / 4 + (fr_angle r - 0.5) * 0.6;
          speed = 10 + fr_speed r * 10
      in \<lparr>sh_x = fr_x r * real_of_int W * 0.8,
          sh_y = fr_y r * real_of_int H * 0.35,
          sh_vx = cos angle * speed,
          sh_vy = sin angle * speed,
          sh_life = 1,
          sh_decay = 0.014 + fr_decay r * 0.012,
          sh_trail = [],
          sh_maxTrail = 28,
          sh_size = 1.4 + fr_size r * 1.2\<rparr>)"

subsection \<open>Physics update: one star\<close>

text \<open>Twinkling: \<^verbatim>\<open>s.size = s.baseSize * (0.65 + 0.35 * Math.sin(time * s.twinkleK * 60 + s.twinkleP))\<close>.\<close>

definition twinkle :: "real \<Rightarrow> star \<Rightarrow> star" where
  "twinkle t s =
     s\<lparr>st_size := st_baseSize s * (0.65 + 0.35 * sin (t * st_twinkleK s * 60 + st_twinkleP s))\<rparr>"

text \<open>The body of the loop over \<^verbatim>\<open>vortexCenters\<close>, for one centre.\<close>

definition vortex_force :: "vortex \<Rightarrow> star \<Rightarrow> star" where
  "vortex_force vt s =
     (let dx = st_x s - vt_x vt;
          dy = st_y s - vt_y vt;
          d = sqrt (dx * dx + dy * dy)
      in if d < vt_r vt \<and> d > 1
         then (let f = (1 - d / vt_r vt) * vt_str vt * 0.25;
                   vx1 = st_vx s + (- dy / d) * f;
                   vy1 = st_vy s + (dx / d) * f;
                   vx2 = vx1 - (dx / d) * f * 0.08;
                   vy2 = vy1 - (dy / d) * f * 0.08
               in s\<lparr>st_vx := vx2, st_vy := vy2\<rparr>)
         else s)"

fun vortex_forces :: "vortex list \<Rightarrow> star \<Rightarrow> star" where
  "vortex_forces [] s = s"
| "vortex_forces (vt # vts) s = vortex_forces vts (vortex_force vt s)"

text \<open>
  Mouse influence. The test is \<^verbatim>\<open>mouse.x !== null\<close> alone; \<^verbatim>\<open>mouse.y\<close> is then read
  in a subtraction, where \<^verbatim>\<open>null\<close> counts as \<open>0\<close>.
\<close>

definition mouse_influence :: "mouse \<Rightarrow> star \<Rightarrow> star" where
  "mouse_influence m s =
     (case mouse_x m of
        None \<Rightarrow> s
      | Some mx \<Rightarrow>
          (let dx = st_x s - mx;
               dy = st_y s - (case mouse_y m of None \<Rightarrow> 0 | Some my \<Rightarrow> my);
               d = sqrt (dx * dx + dy * dy)
           in if d < 280 \<and> d > 1
              then (let f = (1 - d / 280) * 0.45
                    in s\<lparr>st_vx := st_vx s + (- dy / d) * f,
                         st_vy := st_vy s + (dx / d) * f\<rparr>)
              else s))"

definition damping :: "star \<Rightarrow> star" where
  "damping s = s\<lparr>st_vx := st_vx s * 0.975, st_vy := st_vy s * 0.975\<rparr>"

definition move :: "star \<Rightarrow> star" where
  "move s = s\<lparr>st_x := st_x s + st_vx s, st_y := st_y s + st_vy s\<rparr>"

text \<open>
  Wrap edges: the four tests in the order of the code, each on the coordinate as the
  tests before it left it, then \<^verbatim>\<open>if (wrapped) s.trail.length = 0\<close>. The flag
  \<^verbatim>\<open>wrapped\<close> is returned with the star.
\<close>

definition wrap_edges :: "int \<Rightarrow> int \<Rightarrow> star \<Rightarrow> star \<times> bool" where
  "wrap_edges W H s =
     (let w = real_of_int W; h = real_of_int H;
          (x1, wrapped1) = (if st_x s < - 20 then (st_x s + (w + 40), True) else (st_x s, False));
          (x2, wrapped2) = (if x1 > w + 20 then (x1 - (w + 40), True) else (x1, wrapped1));
          (y1, wrapped3) = (if st_y s < - 20 then (st_y s + (h + 40), True) else (st_y s, wrapped2));
          (y2, wrapped4) = (if y1 > h + 20 then (y1 - (h + 40), True) else (y1, wrapped3))
      in (s\<lparr>st_x := x2, st_y := y2,
            st_trail := (if wrapped4 then [] else st_trail s)\<rparr>, wrapped4))"

text \<open>Trail: \<^verbatim>\<open>s.trail.push({x, y}); if (s.trail.length > s.maxTrail) s.trail.shift()\<close>.\<close>

definition trail_step :: "star \<Rightarrow> star" where
  "trail_step s =
     (let t = st_trail s @ [(st_x s, st_y s)]
      in s\<lparr>st_trail := (if int (length t) > st_maxTrail s then tl t else t)\<rparr>)"

text \<open>The body of the loop over \<^verbatim>\<open>stars\<close>: first the statements up to
  \<^verbatim>\<open>s.x += s.vx; s.y += s.vy\<close>, then the wrap and the trail.\<close>

definition integrate :: "vortex list \<Rightarrow> mouse \<Rightarrow> real \<Rightarrow> star \<Rightarrow> star" where
  "integrate vcs m t s =
     move (damping (mouse_influence m (vortex_forces vcs (twinkle t s))))"

definition update_star :: "int \<Rightarrow> int \<Rightarrow> vortex list \<Rightarrow> mouse \<Rightarrow> real \<Rightarrow> star \<Rightarrow> star" where
  "update_star W H vcs m t s = trail_step (fst (wrap_edges W H (integrate vcs m t s)))"

fun update_stars :: "int \<Rightarrow> int \<Rightarrow> vortex list \<Rightarrow> mouse \<Rightarrow> real \<Rightarrow> star list \<Rightarrow> star list" where
  "update_stars W H vcs m t [] = []"
| "update_stars W H vcs m t (s # ss) = update_star W H vcs m t s # update_stars W H vcs m t ss"

subsection \<open>Physics update: shooting stars\<close>

text \<open>The body of the last loop up to the test of \<^verbatim>\<open>ss.life\<close>.\<close>

definition advance :: "shooting \<Rightarrow> shooting" where
  "advance ss =
     (let x = sh_x ss + sh_vx ss;
          y = sh_y ss + sh_vy ss;
          life = sh_life ss - sh_decay ss;
          t = sh_trail ss @ [(x, y, life)]
      in ss\<lparr>sh_x := x, sh_y := y, sh_life := life,
            sh_trail := (if int (length t) > sh_maxTrail ss then tl t else t)\<rparr>)"

text \<open>
  \<^verbatim>\<open>for (let i = shootingStars.length - 1; i >= 0; i--)\<close>: the first argument is
  \<open>i + 1\<close>. \<^verbatim>\<open>splice(i, 1)\<close> removes the entry at \<open>i\<close>.
\<close>

fun shooting_loop :: "nat \<Rightarrow> shooting list \<Rightarrow> shooting list" where
  "shooting_loop 0 xs = xs"
| "shooting_loop (Suc i) xs =
     (let ss = advance (xs ! i);
          xs1 = xs[i := ss];
          xs2 = (if sh_life ss \<le> 0 then take i xs1 @ drop (Suc i) xs1 else xs1)
      in shooting_loop i xs2)"

definition update_shooting :: "shooting list \<Rightarrow> shooting list" where
  "update_shooting xs = shooting_loop (length xs) xs"

subsection \<open>Physics update\<close>

text \<open>\<^verbatim>\<open>if (Math.random() < 0.0025 && shootingStars.length < 2) shootingStars.push(spawnShootingStar())\<close>.\<close>

definition maybe_spawn :: "int \<Rightarrow> int \<Rightarrow> frame_rand \<Rightarrow> shooting list \<Rightarrow> shooting list" where
  "maybe_spawn W H r xs =
     (if fr_roll r < 0.0025 \<and> length xs < 2 then xs @ [spawnShootingStar W H r] else xs)"

definition update :: "frame_rand \<Rightarrow> scene \<Rightarrow> scene" where
  "update r sc =
     (let t = sc_time sc + 0.016;
          shs = maybe_spawn (sc_W sc) (sc_H sc) r (sc_shootingStars sc);
          sts = update_stars (sc_W sc) (sc_H sc) (sc_vortexCenters sc) (sc_mouse sc) t (sc_stars sc)
      in sc\<lparr>sc_time := t, sc_stars := sts, sc_shootingStars := update_shooting shs\<rparr>)"

subsection \<open>Event listeners and the animation loop\<close>

text \<open>
  The scroll listener, given \<^verbatim>\<open>window.scrollY\<close> and \<^verbatim>\<open>window.innerHeight\<close>. With
  \<^verbatim>\<open>vh * 1.8 = 0\<close> the quotient is \<^verbatim>\<open>NaN\<close> for \<open>0 / 0\<close> and an infinity otherwise;
  \<^verbatim>\<open>Math.max\<close> returns \<^verbatim>\<open>NaN\<close> when an argument is \<^verbatim>\<open>NaN\<close>.
\<close>

definition scroll_dim :: "real \<Rightarrow> int \<Rightarrow> jsnum" where
  "scroll_dim scrollY innerHeight =
     (let vh = real_of_int innerHeight in
      if vh * 1.8 = 0
      then (if scrollY = 0 then NaN
            else if scrollY > 0 then Finite 0.35
            else PosInfinity)
      else Finite (max 0.35 (1 - scrollY / (vh * 1.8))))"

datatype event =
    Frame frame_rand
  | Resize int int "nat \<Rightarrow> real"
  | MouseMove real real
  | MouseOut
  | Scroll real int

text \<open>
  One callback: \<open>Frame\<close> is \<^verbatim>\<open>loop\<close> (\<^verbatim>\<open>update(); draw(); raf(loop)\<close>, where
  \<^verbatim>\<open>draw\<close> reads the scene and writes the canvas only), the others are the four
  listeners.
\<close>

fun step :: "scene \<Rightarrow> event \<Rightarrow> scene" where
  "step sc (Frame r) = update r sc"
| "step sc (Resize w h rng) = initStars rng (resize w h sc)"
| "step sc (MouseMove cx cy) = sc\<lparr>sc_mouse := \<lparr>mouse_x = Some cx, mouse_y = Some cy\<rparr>\<rparr>"
| "step sc MouseOut = sc\<lparr>sc_mouse := \<lparr>mouse_x = None, mouse_y = None\<rparr>\<rparr>"
| "step sc (Scroll scrollY vh) = sc\<lparr>sc_scrollDim := scroll_dim scrollY vh\<rparr>"

fun run :: "scene \<Rightarrow> event list \<Rightarrow> scene" where
  "run sc [] = sc"
| "run sc (e # es) = run (step sc e) es"

text \<open>
  The module-level initial values. \<^verbatim>\<open>W\<close> and \<^verbatim>\<open>H\<close> are declared without a value and
  written by \<^verbatim>\<open>resize()\<close> before anything reads them; \<open>0\<close> stands for that here.
\<close>

definition scene0 :: scene where
  "scene0 = \<lparr>sc_W = 0, sc_H = 0, sc_mouse = \<lparr>mouse_x = None, mouse_y = None\<rparr>,
     sc_stars = [], sc_shootingStars = [], sc_vortexCenters = [], sc_time = 0,
     sc_scrollDim = Finite 1\<rparr>"

text \<open>Boot: \<^verbatim>\<open>resize(); initStars(); loop();\<close>.\<close>

definition boot :: "int \<Rightarrow> int \<Rightarrow> (nat \<Rightarrow> real) \<Rightarrow> frame_rand \<Rightarrow> scene" where
  "boot w h rng r = run scene0 [Resize w h rng, Frame r]"

text \<open>A draw of \<^verbatim>\<open>Math.random()\<close> lies in \<open>[0, 1)\<close>.\<close>

definition unit_draw :: "real \<Rightarrow> bool" where
  "unit_draw r = (0 \<le> r \<and> r < 1)"

definition frame_draws_ok :: "frame_rand \<Rightarrow> bool" where
  "frame_draws_ok r =
     (unit_draw (fr_roll r) \<and> unit_draw (fr_angle r) \<and> unit_draw (fr_speed r) \<and>
      unit_draw (fr_x r) \<and> unit_draw (fr_y r) \<and> unit_draw (fr_decay r) \<and>
      unit_draw (fr_size r))"

text \<open>The draws an event carries are draws of \<^verbatim>\<open>Math.random()\<close>.\<close>

fun draws_ok :: "event \<Rightarrow> bool" where
  "draws_ok (Frame r) = frame_draws_ok r"
| "draws_ok (Resize w h rng) = (\<forall>k. unit_draw (rng k))"
| "draws_ok (MouseMove cx cy) = True"
| "draws_ok MouseOut = True"
| "draws_ok (Scroll scrollY vh) = True"

subsection \<open>Damping in binary64\<close>

text \<open>
  \<^verbatim>\<open>s.vx *= 0.975\<close> multiplies two binary64 values and rounds the exact product to the
  nearest binary64 value, ties to the even significand. The finite binary64 values are
  the numbers \<open>n * 2 ^ e\<close> with an integer \<open>n\<close>, \<open>|n| < 2 ^ 53\<close> and
  \<open>- 1074 \<le> e \<le> 971\<close>. Around a real \<open>x\<close> they are \<open>2 ^ ulp_exp x\<close> apart: 52 binary
  places below the leading bit of \<open>x\<close>, and never finer than \<open>2 ^ - 1074\<close> (the
  subnormal values). \<open>round64\<close> rounds to that grid. It leaves out the overflow to
  \<^verbatim>\<open>Infinity\<close>, which a product with \<open>0.975\<close> of a finite value cannot reach.
\<close>

definition rne :: "real \<Rightarrow> int" where
  "rne r =
     (let n = \<lfloor>r\<rfloor>; d = r - real_of_int n
      in if d < 1 / 2 then n
         else if 1 / 2 < d then n + 1
         else if even n then n else n + 1)"

definition ulp_exp :: "real \<Rightarrow> int" where
  "ulp_exp x = max (\<lfloor>log 2 \<bar>x\<bar>\<rfloor> - 52) (- 1074)"

definition round64 :: "real \<Rightarrow> real" where
  "round64 x = real_of_int (rne (x / 2 powi ulp_exp x)) * 2 powi ulp_exp x"

text \<open>A real is a finite binary64 value when rounding leaves it as it is and it is
  below \<open>2 ^ 1024\<close>.\<close>

definition finite_double :: "real \<Rightarrow> bool" where
  "finite_double x = (round64 x = x \<and> \<bar>x\<bar> < 2 ^ 1024)"

text \<open>\<^verbatim>\<open>Number.MIN_VALUE\<close>, the smallest positive binary64 value.\<close>

definition MIN_VALUE :: real where
  "MIN_VALUE = 2 powi (- 1074)"

text \<open>The damping statements with their rounding; the literal \<^verbatim>\<open>0.975\<close> denotes the
  binary64 value nearest to it.\<close>

definition damping64 :: "star \<Rightarrow> star" where
  "damping64 s = s\<lparr>st_vx := round64 (st_vx s * round64 0.975),
                   st_vy := round64 (st_vy s * round64 0.975)\<rparr>"

text \<open>The magnitude of the velocity of a star.\<close>

definition speed :: "star \<Rightarrow> real" where
  "speed s = sqrt (st_vx s * st_vx s + st_vy s * st_vy s)"

text \<open>A star at rest at the origin but for the given velocity.\<close>

definition star_moving :: "real \<Rightarrow> real \<Rightarrow> star" where
  "star_moving vx vy = \<lparr>st_x = 0, st_y = 0, st_vx = vx, st_vy = vy, st_size = 1,
     st_baseSize = 1, st_color = PAL_gold, st_twinkleK = 0.018, st_twinkleP = 0,
     st_trail = [], st_maxTrail = 12\<rparr>"

text \<open>A star at rest at \<open>(x, y)\<close> with an empty trail, for evaluating the update
  at a given position.\<close>

definition star_at :: "real \<Rightarrow> real \<Rightarrow> star" where
  "star_at x y = \<lparr>st_x = x, st_y = y, st_vx = 0, st_vy = 0, st_size = 1, st_baseSize = 1,
     st_color = PAL_gold, st_twinkleK = 0.018, st_twinkleP = 0, st_trail = [],
     st_maxTrail = 12\<rparr>"

text \<open>Invariants of the stars and shooting stars that the factories make and the
  update keeps.\<close>

definition star_ok :: "star \<Rightarrow> bool" where
  "star_ok s = (int (length (st_trail s)) \<le> st_maxTrail s \<and> 0.4 \<le> st_baseSize s \<and>
     0.3 * st_baseSize s \<le> st_size s \<and> st_size s \<le> st_baseSize s)"

definition shooting_ok :: "shooting \<Rightarrow> bool" where
  "shooting_ok ss = (0.014 \<le> sh_decay ss \<and> 0 < sh_life ss)"

definition scene_ok :: "scene \<Rightarrow> bool" where
  "scene_ok sc = ((\<forall>s\<in>set (sc_stars sc). star_ok s) \<and>
     (\<forall>ss\<in>set (sc_shootingStars sc). shooting_ok ss))"

text \<open>Draws for evaluating a frame: with \<open>half_draws\<close> the spawn test fails, with
  \<open>spawn_draws\<close> it passes.\<close>

definition spawn_draws :: frame_rand where
  "spawn_draws = \<lparr>fr_roll = 0, fr_angle = 1 / 2, fr_speed = 1 / 2, fr_x = 1 / 2,
     fr_y = 1 / 2, fr_decay = 1 / 2, fr_size = 1 / 2\<rparr>"

definition half_draws :: frame_rand where
  "half_draws = \<lparr>fr_roll = 1 / 2, fr_angle = 1 / 2, fr_speed = 1 / 2, fr_x = 1 / 2,
     fr_y = 1 / 2, fr_decay = 1 / 2, fr_size = 1 / 2\<rparr>"

text \<open>
  Two scenes for evaluating a frame. In \<open>wrap_scene\<close> (surface 1000 by 1000, centres as
  \<^verbatim>\<open>resize()\<close> lays them out, no pointer) the one star moves left at speed 4 from
  \<open>(- 19, 140)\<close>, with three samples in its trail, so the next frame takes it across
  the left bound. In \<open>fading_scene\<close> the one shooting star is the one \<open>spawn_draws\<close>
  makes (decay \<open>0.02\<close>) with its life down to \<open>0.02\<close>, as it is after 49 frames.
\<close>

definition wrap_scene :: scene where
  "wrap_scene = (resize 1000 1000 scene0)
     \<lparr>sc_stars := [(star_at (- 19) 140)
        \<lparr>st_vx := - 4, st_trail := [(- 11, 140), (- 15, 140), (- 19, 140)]\<rparr>]\<rparr>"

definition fading_scene :: scene where
  "fading_scene = (resize 520 30 scene0)
     \<lparr>sc_shootingStars := [(spawnShootingStar 520 30 spawn_draws)\<lparr>sh_life := 0.02\<rparr>]\<rparr>"

section \<open>Properties\<close>

subsection \<open>The shooting-star loop\<close>

text \<open>
  The loop runs from the last index down and splices at the index it stands on, so no
  entry is skipped or visited twice: it advances every entry and keeps, in order, those
  whose life is still positive.
\<close>

lemma shooting_loop_eq:
  "i \<le> length xs \<Longrightarrow>
   shooting_loop i xs = filter (\<lambda>ss. \<not> sh_life ss \<le> 0) (map advance (take i xs)) @ drop i xs"
proof (induction i arbitrary: xs)
  case 0
  then show ?case by simp
next
  case (Suc i)
  then have lt: "i < length xs" by simp
  let ?ss = "advance (xs ! i)"
  let ?xs1 = "xs[i := ?ss]"
  have t1: "take i ?xs1 = take i xs" by simp
  have tk: "take (Suc i) xs = take i xs @ [xs ! i]"
    using lt by (simp add: take_Suc_conv_app_nth)
  show ?case
  proof (cases "sh_life ?ss \<le> 0")
    case True
    let ?xs2 = "take i xs @ drop (Suc i) xs"
    have len: "i \<le> length ?xs2" using lt by simp
    have "shooting_loop (Suc i) xs = shooting_loop i ?xs2"
      using True by (simp add: Let_def)
    also have "\<dots> = filter (\<lambda>ss. \<not> sh_life ss \<le> 0) (map advance (take i ?xs2)) @ drop i ?xs2"
      using Suc.IH [OF len] .
    also have "take i ?xs2 = take i xs" using lt by simp
    also have "drop i ?xs2 = drop (Suc i) xs" using lt by simp
    finally show ?thesis using True by (simp add: tk)
  next
    case False
    have len: "i \<le> length ?xs1" using lt by simp
    have "shooting_loop (Suc i) xs = shooting_loop i ?xs1"
      using False by (simp add: Let_def)
    also have "\<dots> = filter (\<lambda>ss. \<not> sh_life ss \<le> 0) (map advance (take i ?xs1)) @ drop i ?xs1"
      using Suc.IH [OF len] .
    also have "drop i ?xs1 = ?ss # drop (Suc i) xs"
      using lt by (simp add: Cons_nth_drop_Suc [symmetric] upd_conv_take_nth_drop)
    finally show ?thesis using False by (simp add: tk t1)
  qed
qed

lemma update_shooting_eq:
  "update_shooting xs = filter (\<lambda>ss. \<not> sh_life ss \<le> 0) (map advance xs)"
  by (simp add: update_shooting_def shooting_loop_eq)

lemma length_update_shooting: "length (update_shooting xs) \<le> length xs"
  by (simp add: update_shooting_eq)

lemma length_maybe_spawn:
  "length (maybe_spawn W H r xs) =
     (if fr_roll r < 0.0025 \<and> length xs < 2 then length xs + 1 else length xs)"
  by (simp add: maybe_spawn_def)

subsection \<open>At most two shooting stars\<close>

lemma step_shooting_le2:
  "length (sc_shootingStars sc) \<le> 2 \<Longrightarrow> length (sc_shootingStars (step sc e)) \<le> 2"
proof (cases e)
  case (Frame r)
  assume le: "length (sc_shootingStars sc) \<le> 2"
  have "length (maybe_spawn (sc_W sc) (sc_H sc) r (sc_shootingStars sc)) \<le> 2"
    using le by (simp add: length_maybe_spawn)
  then have "length (update_shooting (maybe_spawn (sc_W sc) (sc_H sc) r (sc_shootingStars sc))) \<le> 2"
    using length_update_shooting le_trans by blast
  then show ?thesis using Frame by (simp add: update_def Let_def)
qed (simp_all add: initStars_def resize_def Let_def)

lemma run_shooting_le2:
  "length (sc_shootingStars sc) \<le> 2 \<Longrightarrow> length (sc_shootingStars (run sc es)) \<le> 2"
  by (induction es arbitrary: sc) (simp_all add: step_shooting_le2)

lemma boot_shooting_le2: "length (sc_shootingStars (boot w h rng r)) \<le> 2"
  unfolding boot_def by (rule run_shooting_le2) (simp add: scene0_def)

text \<open>
  Claim C4. After boot and any sequence of callbacks (frames, resizes, mouse and scroll
  events) the list \<^verbatim>\<open>shootingStars\<close> holds at most two entries. The spawn step of a
  frame adds exactly one entry when its draw is below \<open>0.0025\<close> and fewer than two are
  active, and leaves the list as it is otherwise.
\<close>

theorem shooting_star_count_at_most_two:
  "length (sc_shootingStars (run (boot w h rng r0) es)) \<le> 2 \<and>
   length (maybe_spawn W H r xs) =
     (if fr_roll r < 0.0025 \<and> length xs < 2 then length xs + 1 else length xs)"
  by (simp add: run_shooting_le2 boot_shooting_le2 length_maybe_spawn)

subsection \<open>Population size\<close>

lemma length_initStars_loop:
  "length (initStars_loop i count W H rng acc) = length acc + nat (count - i)"
proof (induction i count W H rng acc rule: initStars_loop.induct)
  case (1 i count W H rng acc)
  show ?case
  proof (cases "i < count")
    case True
    then show ?thesis
      using "1.IH" [OF True] by (subst initStars_loop.simps) (simp add: nat_diff_distrib)
  next
    case False
    then show ?thesis by (subst initStars_loop.simps) simp
  qed
qed

lemma length_update_stars [simp]: "length (update_stars W H vcs m t ss) = length ss"
  by (induction ss) simp_all

lemma star_count_nonneg: "0 \<le> W \<Longrightarrow> 0 \<le> H \<Longrightarrow> 0 \<le> star_count W H"
  by (simp add: star_count_def)

lemma length_stars_resize:
  "length (sc_stars (step sc (Resize W H rng))) = nat (star_count W H)"
  by (simp add: initStars_def resize_def Let_def length_initStars_loop)

lemma length_stars_boot:
  "length (sc_stars (boot W H rng r)) = nat (star_count W H)"
  by (simp add: boot_def update_def initStars_def resize_def Let_def length_initStars_loop)

lemma star_count_1000_800: "star_count 1000 800 = 153"
proof -
  have "\<lfloor>(real_of_int 1000 * real_of_int 800) / 5200\<rfloor> = (153::int)"
    by (simp add: floor_eq_iff)
  then show ?thesis by (simp add: star_count_def)
qed

text \<open>
  Claim C6. For a surface of \<open>W\<close> by \<open>H\<close> (viewport sizes, so not negative), the
  resize listener and the boot sequence both leave \<open>min(280, floor(W * H / 5200))\<close>
  stars; for 1000 by 800 that is 153.
\<close>

theorem star_population_size:
  assumes "0 \<le> W" and "0 \<le> H"
  shows "int (length (sc_stars (step sc (Resize W H rng)))) =
           min 280 \<lfloor>(real_of_int W * real_of_int H) / 5200\<rfloor>
         \<and> int (length (sc_stars (boot W H rng r))) =
           min 280 \<lfloor>(real_of_int W * real_of_int H) / 5200\<rfloor>
         \<and> length (sc_stars (step sc (Resize 1000 800 rng))) = 153
         \<and> length (sc_stars (boot 1000 800 rng r)) = 153"
proof -
  have nn: "0 \<le> star_count W H" using assms by (rule star_count_nonneg)
  have a: "int (length (sc_stars (step sc (Resize W H rng)))) = star_count W H"
    using nn by (simp only: length_stars_resize int_nat_eq if_True)
  have b: "int (length (sc_stars (boot W H rng r))) = star_count W H"
    using nn by (simp only: length_stars_boot int_nat_eq if_True)
  have c: "length (sc_stars (step sc (Resize 1000 800 rng))) = 153"
    by (simp only: length_stars_resize star_count_1000_800)
  have d: "length (sc_stars (boot 1000 800 rng r)) = 153"
    by (simp only: length_stars_boot star_count_1000_800)
  show ?thesis using a b c d unfolding star_count_def by blast
qed

theorem star_population_size_witness:
  "(0::int) \<le> 520 \<and> (0::int) \<le> 30
   \<and> int (length (sc_stars (step scene0 (Resize 520 30 (\<lambda>k. 1 / 2))))) = 3"
proof -
  have "\<lfloor>(real_of_int 520 * real_of_int 30) / 5200\<rfloor> = (3::int)"
    by (simp add: floor_eq_iff)
  then show ?thesis
    using star_population_size [of 520 30 scene0 "\<lambda>k. 1 / 2"] by simp
qed

subsection \<open>Scroll dimming\<close>




text \<open>
  The listener has a floor and no ceiling: the factor is at least \<open>0.35\<close> for every
  offset, and above \<open>1\<close> for every negative one (an elastic overscroll).
\<close>

lemma scroll_dim_at_least_floor:
  assumes "0 < vh"
  shows "\<exists>d. scroll_dim scrollY vh = Finite d \<and> 0.35 \<le> d"
proof -
  have ne: "real_of_int vh * 1.8 \<noteq> 0" using assms by simp
  have eq: "scroll_dim scrollY vh = Finite (max 0.35 (1 - scrollY / (real_of_int vh * 1.8)))"
    using ne by (simp add: scroll_dim_def Let_def)
  have lo: "(0.35::real) \<le> max 0.35 (1 - scrollY / (real_of_int vh * 1.8))"
    by (rule max.cobounded1)
  show ?thesis using eq lo by blast
qed

lemma scroll_dim_negative_offset:
  assumes "scrollY < 0" and "0 < vh"
  shows "scroll_dim scrollY vh = Finite (1 - scrollY / (real_of_int vh * 1.8))"
    and "1 < 1 - scrollY / (real_of_int vh * 1.8)"
proof -
  have p: "0 < real_of_int vh * 1.8" using assms(2) by simp
  have "scrollY / (real_of_int vh * 1.8) < 0" using assms(1) p by (rule divide_neg_pos)
  then show gt: "1 < 1 - scrollY / (real_of_int vh * 1.8)" by simp
  then have "max 0.35 (1 - scrollY / (real_of_int vh * 1.8)) = 1 - scrollY / (real_of_int vh * 1.8)"
    by (simp add: max_def)
  then show "scroll_dim scrollY vh = Finite (1 - scrollY / (real_of_int vh * 1.8))"
    using p by (simp add: scroll_dim_def Let_def)
qed




subsection \<open>What each statement of the star loop leaves alone\<close>

lemma twinkle_fields [simp]:
  "st_baseSize (twinkle t s) = st_baseSize s"
  "st_maxTrail (twinkle t s) = st_maxTrail s"
  "st_trail (twinkle t s) = st_trail s"
  "st_x (twinkle t s) = st_x s"
  "st_y (twinkle t s) = st_y s"
  "st_vx (twinkle t s) = st_vx s"
  "st_vy (twinkle t s) = st_vy s"
  by (simp_all add: twinkle_def)

lemma vortex_force_fields [simp]:
  "st_baseSize (vortex_force vt s) = st_baseSize s"
  "st_size (vortex_force vt s) = st_size s"
  "st_maxTrail (vortex_force vt s) = st_maxTrail s"
  "st_trail (vortex_force vt s) = st_trail s"
  "st_x (vortex_force vt s) = st_x s"
  "st_y (vortex_force vt s) = st_y s"
  by (simp_all add: vortex_force_def Let_def)

lemma vortex_forces_fields [simp]:
  "st_baseSize (vortex_forces vts s) = st_baseSize s"
  "st_size (vortex_forces vts s) = st_size s"
  "st_maxTrail (vortex_forces vts s) = st_maxTrail s"
  "st_trail (vortex_forces vts s) = st_trail s"
  "st_x (vortex_forces vts s) = st_x s"
  "st_y (vortex_forces vts s) = st_y s"
  by (induction vts arbitrary: s; simp)+

lemma mouse_influence_fields [simp]:
  "st_baseSize (mouse_influence m s) = st_baseSize s"
  "st_size (mouse_influence m s) = st_size s"
  "st_maxTrail (mouse_influence m s) = st_maxTrail s"
  "st_trail (mouse_influence m s) = st_trail s"
  "st_x (mouse_influence m s) = st_x s"
  "st_y (mouse_influence m s) = st_y s"
  by (simp_all add: mouse_influence_def Let_def split: option.splits)

lemma damping_fields [simp]:
  "st_baseSize (damping s) = st_baseSize s"
  "st_size (damping s) = st_size s"
  "st_maxTrail (damping s) = st_maxTrail s"
  "st_trail (damping s) = st_trail s"
  "st_x (damping s) = st_x s"
  "st_y (damping s) = st_y s"
  by (simp_all add: damping_def)

lemma move_fields [simp]:
  "st_baseSize (move s) = st_baseSize s"
  "st_size (move s) = st_size s"
  "st_maxTrail (move s) = st_maxTrail s"
  "st_trail (move s) = st_trail s"
  "st_vx (move s) = st_vx s"
  "st_vy (move s) = st_vy s"
  by (simp_all add: move_def)

lemma wrap_edges_fields [simp]:
  "st_baseSize (fst (wrap_edges W H s)) = st_baseSize s"
  "st_size (fst (wrap_edges W H s)) = st_size s"
  "st_maxTrail (fst (wrap_edges W H s)) = st_maxTrail s"
  "st_vx (fst (wrap_edges W H s)) = st_vx s"
  "st_vy (fst (wrap_edges W H s)) = st_vy s"
  by (simp_all add: wrap_edges_def Let_def case_prod_beta)

lemma wrap_edges_trail:
  "st_trail (fst (wrap_edges W H s)) = (if snd (wrap_edges W H s) then [] else st_trail s)"
  by (simp add: wrap_edges_def Let_def case_prod_beta)

lemma trail_step_fields [simp]:
  "st_baseSize (trail_step s) = st_baseSize s"
  "st_size (trail_step s) = st_size s"
  "st_maxTrail (trail_step s) = st_maxTrail s"
  "st_x (trail_step s) = st_x s"
  "st_y (trail_step s) = st_y s"
  "st_vx (trail_step s) = st_vx s"
  "st_vy (trail_step s) = st_vy s"
  by (simp_all add: trail_step_def Let_def)

lemma integrate_fields [simp]:
  "st_baseSize (integrate vcs m t s) = st_baseSize s"
  "st_maxTrail (integrate vcs m t s) = st_maxTrail s"
  "st_trail (integrate vcs m t s) = st_trail s"
  "st_size (integrate vcs m t s) = st_size (twinkle t s)"
  by (simp_all add: integrate_def)

lemma update_star_baseSize [simp]: "st_baseSize (update_star W H vcs m t s) = st_baseSize s"
  by (simp add: update_star_def)

lemma update_star_maxTrail [simp]: "st_maxTrail (update_star W H vcs m t s) = st_maxTrail s"
  by (simp add: update_star_def)

lemma update_star_size:
  "st_size (update_star W H vcs m t s) =
     st_baseSize s * (0.65 + 0.35 * sin (t * st_twinkleK s * 60 + st_twinkleP s))"
  by (simp add: update_star_def twinkle_def)

subsection \<open>Wrap and trail\<close>

text \<open>The flag \<^verbatim>\<open>wrapped\<close> is set exactly when the star stands outside the surface by
  more than the margin of 20.\<close>

lemma wrapped_iff:
  "snd (wrap_edges W H s) \<longleftrightarrow>
     st_x s < - 20 \<or> st_x s > real_of_int W + 20 \<or> st_y s < - 20 \<or> st_y s > real_of_int H + 20"
  by (auto simp add: wrap_edges_def Let_def case_prod_beta)

text \<open>A coordinate below \<open>- 20\<close> is moved up by the size plus 40, one above the size
  plus 20 is moved down by as much: the star enters at the opposite edge.\<close>

lemma wrap_edges_position:
  "st_x (fst (wrap_edges W H s)) =
     (if st_x s < - 20 then st_x s + (real_of_int W + 40)
      else if st_x s > real_of_int W + 20 then st_x s - (real_of_int W + 40)
      else st_x s)"
  "st_y (fst (wrap_edges W H s)) =
     (if st_y s < - 20 then st_y s + (real_of_int H + 40)
      else if st_y s > real_of_int H + 20 then st_y s - (real_of_int H + 40)
      else st_y s)"
  by (simp_all add: wrap_edges_def Let_def case_prod_beta)

lemma trail_step_trail_inv:
  "int (length (st_trail s)) \<le> st_maxTrail s \<Longrightarrow>
   int (length (st_trail (trail_step s))) \<le> st_maxTrail s"
  by (simp add: trail_step_def Let_def)

lemma update_star_trail_inv:
  assumes "int (length (st_trail s)) \<le> st_maxTrail s"
  shows "int (length (st_trail (update_star W H vcs m t s))) \<le> st_maxTrail s"
proof -
  let ?p = "fst (wrap_edges W H (integrate vcs m t s))"
  have "int (length (st_trail ?p)) \<le> st_maxTrail ?p"
    using assms by (simp add: wrap_edges_trail)
  then have "int (length (st_trail (trail_step ?p))) \<le> st_maxTrail ?p"
    by (rule trail_step_trail_inv)
  then show ?thesis by (simp add: update_star_def)
qed

subsection \<open>Invariants of the reachable scenes\<close>

lemma twinkle_bounds:
  fixes a b :: real
  assumes "0 \<le> b"
  shows "0.3 * b \<le> b * (0.65 + 0.35 * sin a)" and "b * (0.65 + 0.35 * sin a) \<le> b"
proof -
  have lo: "(0.3::real) \<le> 0.65 + 0.35 * sin a" using sin_ge_minus_one [of a] by (simp del: sin_ge_minus_one)
  have hi: "0.65 + 0.35 * sin a \<le> (1::real)" using sin_le_one [of a] by (simp del: sin_le_one)
  show "0.3 * b \<le> b * (0.65 + 0.35 * sin a)"
    using mult_left_mono [OF lo assms] by (simp add: mult.commute)
  show "b * (0.65 + 0.35 * sin a) \<le> b"
    using mult_left_mono [OF hi assms] by simp
qed

lemma makeStar_ok:
  assumes "\<forall>k. unit_draw (rnd k)"
  shows "star_ok (makeStar W H rnd)"
proof -
  have r1: "0 \<le> rnd 1" and r8: "0 \<le> rnd 8" using assms by (simp_all add: unit_draw_def)
  have "0 \<le> rnd 8 * 18" using r8 by simp
  then have fl: "0 \<le> \<lfloor>rnd 8 * 18\<rfloor>" by simp
  show ?thesis using r1 fl by (simp add: makeStar_def star_ok_def Let_def)
qed

lemma initStars_loop_ok:
  "\<forall>k. unit_draw (rng k) \<Longrightarrow> \<forall>s\<in>set acc. star_ok s \<Longrightarrow>
   \<forall>s\<in>set (initStars_loop i count W H rng acc). star_ok s"
proof (induction i count W H rng acc rule: initStars_loop.induct)
  case (1 i count W H rng acc)
  show ?case
  proof (cases "i < count")
    case True
    let ?new = "makeStar W H (\<lambda>k. rng (9 * nat i + k))"
    have "unit_draw (rng (9 * nat i + k))" for k using "1.prems"(1) by (rule spec)
    then have "star_ok ?new" by (intro makeStar_ok allI)
    then have acc': "\<forall>s\<in>set (acc @ [?new]). star_ok s"
      using "1.prems"(2) by simp
    have eq: "initStars_loop i count W H rng acc = initStars_loop (i + 1) count W H rng (acc @ [?new])"
      using True by (subst initStars_loop.simps) simp
    show ?thesis unfolding eq by (rule "1.IH" [OF True "1.prems"(1) acc'])
  next
    case False
    have eq: "initStars_loop i count W H rng acc = acc"
      using False by (subst initStars_loop.simps) simp
    show ?thesis unfolding eq by (rule "1.prems"(2))
  qed
qed


lemma update_star_ok:
  assumes "star_ok s"
  shows "star_ok (update_star W H vcs m t s)"
proof -
  have b: "0 \<le> st_baseSize s" using assms by (simp add: star_ok_def)
  have tr: "int (length (st_trail s)) \<le> st_maxTrail s" using assms by (simp add: star_ok_def)
  show ?thesis
    using assms update_star_trail_inv [OF tr, of W H vcs m t]
      twinkle_bounds [OF b, of "t * st_twinkleK s * 60 + st_twinkleP s"]
    by (simp add: star_ok_def update_star_size)
qed

lemma update_stars_ok:
  "\<forall>s\<in>set ss. star_ok s \<Longrightarrow> \<forall>s\<in>set (update_stars W H vcs m t ss). star_ok s"
  by (induction ss) (simp_all add: update_star_ok)

lemma advance_fields [simp]:
  "sh_decay (advance ss) = sh_decay ss"
  "sh_life (advance ss) = sh_life ss - sh_decay ss"
  "sh_maxTrail (advance ss) = sh_maxTrail ss"
  by (simp_all add: advance_def Let_def)

lemma update_shooting_ok:
  "\<forall>ss\<in>set xs. 0.014 \<le> sh_decay ss \<Longrightarrow> \<forall>ss\<in>set (update_shooting xs). shooting_ok ss"
  by (auto simp add: update_shooting_eq shooting_ok_def)

lemma spawn_decay:
  "unit_draw (fr_decay r) \<Longrightarrow> 0.014 \<le> sh_decay (spawnShootingStar W H r)"
  by (simp add: spawnShootingStar_def Let_def unit_draw_def)

lemma maybe_spawn_decay:
  assumes "frame_draws_ok r" and "\<forall>ss\<in>set xs. 0.014 \<le> sh_decay ss"
  shows "\<forall>ss\<in>set (maybe_spawn W H r xs). 0.014 \<le> sh_decay ss"
  using assms spawn_decay [of r W H] by (simp add: maybe_spawn_def frame_draws_ok_def)

lemma step_scene_ok:
  assumes "scene_ok sc" and "draws_ok e"
  shows "scene_ok (step sc e)"
proof (cases e)
  case (Frame r)
  have d: "\<forall>ss\<in>set (sc_shootingStars sc). 0.014 \<le> sh_decay ss"
    using assms(1) by (simp add: scene_ok_def shooting_ok_def)
  have r: "frame_draws_ok r" using assms(2) Frame by simp
  have sh: "\<forall>ss\<in>set (update_shooting (maybe_spawn (sc_W sc) (sc_H sc) r (sc_shootingStars sc))).
              shooting_ok ss"
    by (rule update_shooting_ok [OF maybe_spawn_decay [OF r d]])
  have st: "\<forall>s\<in>set (update_stars (sc_W sc) (sc_H sc) (sc_vortexCenters sc) (sc_mouse sc)
              (sc_time sc + 0.016) (sc_stars sc)). star_ok s"
    using assms(1) by (intro update_stars_ok) (simp add: scene_ok_def)
  show ?thesis using Frame sh st by (simp add: scene_ok_def update_def Let_def)
next
  case (Resize w h rng)
  have rng: "\<forall>k. unit_draw (rng k)" using assms(2) Resize by simp
  have "\<forall>s\<in>set (initStars_loop 0 (star_count w h) w h rng []). star_ok s"
    by (rule initStars_loop_ok [OF rng]) simp
  then show ?thesis
    using assms(1) Resize by (simp add: scene_ok_def initStars_def resize_def Let_def)
next
  case (MouseMove cx cy)
  then show ?thesis using assms(1) by (simp add: scene_ok_def)
next
  case MouseOut
  then show ?thesis using assms(1) by (simp add: scene_ok_def)
next
  case (Scroll y vh)
  then show ?thesis using assms(1) by (simp add: scene_ok_def)
qed

lemma run_scene_ok:
  "scene_ok sc \<Longrightarrow> \<forall>e\<in>set es. draws_ok e \<Longrightarrow> scene_ok (run sc es)"
  by (induction es arbitrary: sc) (simp_all add: step_scene_ok)

lemma scene0_ok: "scene_ok scene0"
  by (simp add: scene_ok_def scene0_def)

lemma boot_scene_ok:
  assumes "\<forall>k. unit_draw (rng k)" and "frame_draws_ok r"
  shows "scene_ok (boot w h rng r)"
  unfolding boot_def using assms by (intro run_scene_ok scene0_ok) simp

lemma reachable_scene_ok:
  assumes "\<forall>k. unit_draw (rng k)" and "frame_draws_ok r" and "\<forall>e\<in>set es. draws_ok e"
  shows "scene_ok (run (boot w h rng r) es)"
  by (rule run_scene_ok [OF boot_scene_ok [OF assms(1,2)] assms(3)])

lemma half_draws_ok: "frame_draws_ok half_draws"
  by (simp add: frame_draws_ok_def half_draws_def unit_draw_def)

lemma spawn_draws_ok: "frame_draws_ok spawn_draws"
  by (simp add: frame_draws_ok_def spawn_draws_def unit_draw_def)

lemma half_rng_ok: "\<forall>k. unit_draw ((\<lambda>k. 1 / 2) k)"
  by (simp add: unit_draw_def)

lemma boot_520_30_stars: "length (sc_stars (run (boot 520 30 rng r) [])) = 3"
proof -
  have "\<lfloor>(real_of_int 520 * real_of_int 30) / 5200\<rfloor> = (3::int)"
    by (simp add: floor_eq_iff)
  then show ?thesis by (simp add: length_stars_boot star_count_def)
qed

lemma boot_spawns: "length (sc_shootingStars (run (boot 520 30 rng spawn_draws) [])) = 1"
  by (simp add: boot_def update_def Let_def initStars_def resize_def scene0_def
      maybe_spawn_def update_shooting_eq spawn_draws_def spawnShootingStar_def advance_def)

text \<open>
  Claim C3. After boot and any sequence of callbacks whose draws are draws of
  \<^verbatim>\<open>Math.random()\<close>, the trail of every star is no longer than the star's
  \<^verbatim>\<open>maxTrail\<close>.
\<close>

theorem trail_length_within_capacity:
  assumes "\<forall>k. unit_draw (rng k)" and "frame_draws_ok r0" and "\<forall>e\<in>set es. draws_ok e"
  shows "\<forall>s\<in>set (sc_stars (run (boot w h rng r0) es)). int (length (st_trail s)) \<le> st_maxTrail s"
  using reachable_scene_ok [OF assms] by (simp add: scene_ok_def star_ok_def)

theorem trail_length_within_capacity_witness:
  "(\<forall>k. unit_draw ((\<lambda>k. 1 / 2) k)) \<and> frame_draws_ok half_draws
   \<and> list_all draws_ok []
   \<and> length (sc_stars (run (boot 520 30 (\<lambda>k. 1 / 2) half_draws) [])) = 3
   \<and> list_all (\<lambda>s. int (length (st_trail s)) \<le> st_maxTrail s)
        (sc_stars (run (boot 520 30 (\<lambda>k. 1 / 2) half_draws) []))"
proof -
  have h3: "\<forall>e\<in>set []. draws_ok e" by simp
  show ?thesis
    using trail_length_within_capacity [OF half_rng_ok half_draws_ok h3, of 520 30]
      half_rng_ok half_draws_ok boot_520_30_stars [of "\<lambda>k. 1 / 2" half_draws]
    unfolding list_all_iff by simp
qed

text \<open>
  Claim C10. The twinkle statement sets the displayed size to
  \<open>baseSize * (0.65 + 0.35 * sin(...))\<close>, which for a base size that is not negative lies
  between \<open>0.3 * baseSize\<close> and \<open>baseSize\<close>; the update never writes \<^verbatim>\<open>baseSize\<close>.
  Every star of a reachable scene has a positive base size (at least \<open>0.4\<close>), so its
  displayed size is positive and within these bounds.
\<close>

theorem twinkle_size_within_base:
  assumes "\<forall>k. unit_draw (rng k)" and "frame_draws_ok r0" and "\<forall>e\<in>set es. draws_ok e"
  shows "(\<forall>s\<in>set (sc_stars (run (boot w h rng r0) es)).
            0.3 * st_baseSize s \<le> st_size s \<and> st_size s \<le> st_baseSize s \<and> 0 < st_size s)
         \<and> st_size (update_star W H vcs m t s) =
             st_baseSize s * (0.65 + 0.35 * sin (t * st_twinkleK s * 60 + st_twinkleP s))
         \<and> (0 \<le> st_baseSize s \<longrightarrow>
              0.3 * st_baseSize s \<le> st_size (update_star W H vcs m t s) \<and>
              st_size (update_star W H vcs m t s) \<le> st_baseSize s)
         \<and> st_baseSize (update_star W H vcs m t s) = st_baseSize s"
proof -
  have "scene_ok (run (boot w h rng r0) es)" by (rule reachable_scene_ok [OF assms])
  then have a: "\<forall>s\<in>set (sc_stars (run (boot w h rng r0) es)).
            0.3 * st_baseSize s \<le> st_size s \<and> st_size s \<le> st_baseSize s \<and> 0 < st_size s"
    by (auto simp add: scene_ok_def star_ok_def)
  have b: "0 \<le> st_baseSize s \<longrightarrow>
              0.3 * st_baseSize s \<le> st_size (update_star W H vcs m t s) \<and>
              st_size (update_star W H vcs m t s) \<le> st_baseSize s"
    using twinkle_bounds [of "st_baseSize s" "t * st_twinkleK s * 60 + st_twinkleP s"]
    by (simp add: update_star_size)
  show ?thesis using a b by (simp add: update_star_size)
qed

theorem twinkle_size_within_base_witness:
  "(\<forall>k. unit_draw ((\<lambda>k. 1 / 2) k)) \<and> frame_draws_ok half_draws
   \<and> list_all draws_ok []
   \<and> length (sc_stars (run (boot 520 30 (\<lambda>k. 1 / 2) half_draws) [])) = 3
   \<and> list_all (\<lambda>s. 0.3 * st_baseSize s \<le> st_size s \<and> st_size s \<le> st_baseSize s \<and> 0 < st_size s)
        (sc_stars (run (boot 520 30 (\<lambda>k. 1 / 2) half_draws) []))
   \<and> 0 \<le> st_baseSize (star_at 630 140)
   \<and> 0.3 * st_baseSize (star_at 630 140)
        \<le> st_size (update_star 1000 1000 [] (sc_mouse scene0) 0 (star_at 630 140))
   \<and> st_size (update_star 1000 1000 [] (sc_mouse scene0) 0 (star_at 630 140))
        \<le> st_baseSize (star_at 630 140)"
proof -
  have h3: "\<forall>e\<in>set []. draws_ok e" by simp
  have b: "0 \<le> st_baseSize (star_at 630 140)" by (simp add: star_at_def)
  show ?thesis
    using twinkle_size_within_base [OF half_rng_ok half_draws_ok h3,
        of 520 30 1000 1000 "[]" "sc_mouse scene0" 0 "star_at 630 140"]
      half_rng_ok half_draws_ok b boot_520_30_stars [of "\<lambda>k. 1 / 2" half_draws]
    unfolding list_all_iff by simp
qed

text \<open>What a callback does to the list of shooting stars.\<close>

lemma shooting_after_frame:
  "sc_shootingStars (step sc (Frame r)) =
     filter (\<lambda>ss. 0 < sh_life ss)
       (map advance (maybe_spawn (sc_W sc) (sc_H sc) r (sc_shootingStars sc)))"
  by (simp add: update_def Let_def update_shooting_eq not_le)

lemma shooting_other_events:
  "sc_shootingStars (step sc (Resize w h rng)) = sc_shootingStars sc"
  "sc_shootingStars (step sc (MouseMove cx cy)) = sc_shootingStars sc"
  "sc_shootingStars (step sc MouseOut) = sc_shootingStars sc"
  "sc_shootingStars (step sc (Scroll y vh)) = sc_shootingStars sc"
  by (simp_all add: initStars_def resize_def Let_def)

text \<open>
  Claim C9. A frame lowers the life of every shooting star (the one it has just
  spawned included) by the star's decay and keeps exactly those whose life is still
  positive; no other callback touches the list. In every reachable scene each active
  shooting star has a positive decay (at least \<open>0.014\<close>), so its life gets smaller with
  every frame, and a positive life: a shooting star whose life has reached \<open>0\<close> or less
  is gone at the end of that very frame.
\<close>

theorem shooting_star_life_decays_and_expires:
  assumes "\<forall>k. unit_draw (rng k)" and "frame_draws_ok r0" and "\<forall>e\<in>set es. draws_ok e"
  shows "sc_shootingStars (step sc (Frame r)) =
           filter (\<lambda>ss. 0 < sh_life ss)
             (map advance (maybe_spawn (sc_W sc) (sc_H sc) r (sc_shootingStars sc)))
         \<and> sc_shootingStars (step sc (Resize w' h' rng')) = sc_shootingStars sc
         \<and> sc_shootingStars (step sc (MouseMove cx cy)) = sc_shootingStars sc
         \<and> sc_shootingStars (step sc MouseOut) = sc_shootingStars sc
         \<and> sc_shootingStars (step sc (Scroll y vh)) = sc_shootingStars sc
         \<and> update_shooting xs = filter (\<lambda>ss. 0 < sh_life ss) (map advance xs)
         \<and> sh_life (advance ss) = sh_life ss - sh_decay ss
         \<and> sh_decay (advance ss) = sh_decay ss
         \<and> (\<forall>a\<in>set (sc_shootingStars (run (boot w h rng r0) es)).
              0 < sh_decay a \<and> sh_life (advance a) < sh_life a
              \<and> sh_life (advance a) \<le> sh_life a \<and> 0 < sh_life a)"
proof -
  have "scene_ok (run (boot w h rng r0) es)" by (rule reachable_scene_ok [OF assms])
  then have a: "\<forall>a\<in>set (sc_shootingStars (run (boot w h rng r0) es)).
              0 < sh_decay a \<and> sh_life (advance a) < sh_life a
              \<and> sh_life (advance a) \<le> sh_life a \<and> 0 < sh_life a"
    by (auto simp add: scene_ok_def shooting_ok_def)
  have b: "update_shooting xs = filter (\<lambda>ss. 0 < sh_life ss) (map advance xs)"
    by (simp add: update_shooting_eq not_le)
  show ?thesis using a b shooting_after_frame [of sc r] shooting_other_events [of sc] by simp
qed

lemma boot_spawn_life:
  "map sh_life (sc_shootingStars (run (boot 520 30 rng spawn_draws) [])) = [49 / 50]"
  by (simp add: boot_def update_def Let_def initStars_def resize_def scene0_def
      maybe_spawn_def update_shooting_eq spawn_draws_def spawnShootingStar_def advance_def)

lemma boot_spawn_life2:
  "map sh_life (sc_shootingStars (run (boot 520 30 rng spawn_draws) [Frame half_draws])) = [24 / 25]"
  by (simp add: boot_def update_def Let_def initStars_def resize_def scene0_def
      maybe_spawn_def update_shooting_eq spawn_draws_def half_draws_def spawnShootingStar_def advance_def)

lemma fading_expires:
  "length (sc_shootingStars fading_scene) = 1"
  "map sh_life (sc_shootingStars fading_scene) = [1 / 50]"
  "filter (\<lambda>ss. 0 < sh_life ss)
     (map advance (maybe_spawn (sc_W fading_scene) (sc_H fading_scene) half_draws
        (sc_shootingStars fading_scene))) = []"
  by (simp_all add: fading_scene_def resize_def Let_def scene0_def maybe_spawn_def half_draws_def
      spawn_draws_def spawnShootingStar_def advance_def)

theorem shooting_star_life_decays_and_expires_witness:
  "(\<forall>k. unit_draw ((\<lambda>k. 1 / 2) k)) \<and> frame_draws_ok spawn_draws
   \<and> list_all draws_ok [Frame half_draws]
   \<and> map sh_life (sc_shootingStars (run (boot 520 30 (\<lambda>k. 1 / 2) spawn_draws) [])) = [49 / 50]
   \<and> map sh_life (sc_shootingStars (run (boot 520 30 (\<lambda>k. 1 / 2) spawn_draws) [Frame half_draws]))
        = [24 / 25]
   \<and> list_all (\<lambda>a. 0 < sh_decay a \<and> sh_life (advance a) < sh_life a \<and> 0 < sh_life a)
        (sc_shootingStars (run (boot 520 30 (\<lambda>k. 1 / 2) spawn_draws) [Frame half_draws]))
   \<and> map sh_life (sc_shootingStars fading_scene) = [1 / 50]
   \<and> sc_shootingStars (step fading_scene (Frame half_draws)) = []"
proof -
  have h3: "\<forall>e\<in>set [Frame half_draws]. draws_ok e" by (simp add: half_draws_ok)
  note t = shooting_star_life_decays_and_expires [OF half_rng_ok spawn_draws_ok h3,
      where sc = fading_scene and r = half_draws and w = 520 and h = 30]
  have e: "sc_shootingStars (step fading_scene (Frame half_draws)) = []"
    using t fading_expires(3) by simp
  have r: "list_all (\<lambda>a. 0 < sh_decay a \<and> sh_life (advance a) < sh_life a \<and> 0 < sh_life a)
        (sc_shootingStars (run (boot 520 30 (\<lambda>k. 1 / 2) spawn_draws) [Frame half_draws]))"
    using t unfolding list_all_iff by blast
  show ?thesis
    using e r half_rng_ok spawn_draws_ok half_draws_ok fading_expires(2)
      boot_spawn_life [of "\<lambda>k. 1 / 2"] boot_spawn_life2 [of "\<lambda>k. 1 / 2"]
    by simp
qed

subsection \<open>Pointer absent\<close>

text \<open>
  Claim C8. With \<^verbatim>\<open>mouse.x\<close> equal to \<^verbatim>\<open>null\<close> the mouse statement returns the star
  as it got it, so the tick is the tick of a loop body without that statement. The
  pointer is absent at boot and after every \<^verbatim>\<open>mouseout\<close>.
\<close>

theorem absent_pointer_contributes_nothing:
  assumes "mouse_x m = None"
  shows "mouse_influence m s = s
         \<and> update_star W H vcs m t s =
             trail_step (fst (wrap_edges W H (move (damping (vortex_forces vcs (twinkle t s))))))
         \<and> mouse_x (sc_mouse (step sc MouseOut)) = None
         \<and> mouse_x (sc_mouse scene0) = None"
  using assms by (simp add: mouse_influence_def update_star_def integrate_def scene0_def)

theorem absent_pointer_contributes_nothing_witness:
  "mouse_x (sc_mouse scene0) = None
   \<and> mouse_influence (sc_mouse scene0) (star_at 630 140) = star_at 630 140"
proof -
  have h: "mouse_x (sc_mouse scene0) = None" by (simp add: scene0_def)
  show ?thesis using absent_pointer_contributes_nothing [OF h, of "star_at 630 140"] h by blast
qed

subsection \<open>Vortex forces\<close>

text \<open>
  Outside the radius of a centre, and within distance 1 of it, the centre changes
  nothing. Inside, the velocity gets \<open>f\<close> times the unit vector \<open>(- dy / d, dx / d)\<close>,
  which is perpendicular to the radius vector \<open>(dx, dy)\<close>, minus \<open>0.08 * f\<close> times the unit
  vector \<open>(dx / d, dy / d)\<close>, which points from the centre to the star. A centre's
  contribution depends on the position of the star only, so the contributions of the
  centres add up.
\<close>

lemma vortex_force_outside:
  assumes "sqrt ((st_x s - vt_x vt) * (st_x s - vt_x vt) + (st_y s - vt_y vt) * (st_y s - vt_y vt)) \<ge> vt_r vt
           \<or> sqrt ((st_x s - vt_x vt) * (st_x s - vt_x vt) + (st_y s - vt_y vt) * (st_y s - vt_y vt)) \<le> 1"
  shows "vortex_force vt s = s"
  using assms by (auto simp add: vortex_force_def Let_def)

lemma vortex_force_inside:
  fixes s :: star and vt :: vortex
  defines "dx \<equiv> st_x s - vt_x vt" and "dy \<equiv> st_y s - vt_y vt"
  defines "d \<equiv> sqrt (dx * dx + dy * dy)"
  defines "f \<equiv> (1 - d / vt_r vt) * vt_str vt * 0.25"
  assumes "1 < d" and "d < vt_r vt"
  shows "st_vx (vortex_force vt s) = st_vx s + (- dy / d) * f - (dx / d) * f * 0.08"
    and "st_vy (vortex_force vt s) = st_vy s + (dx / d) * f - (dy / d) * f * 0.08"
proof -
  have c: "d < vt_r vt \<and> d > 1" using assms by simp
  have sel: "\<And>a b. st_vx (s\<lparr>st_vx := a, st_vy := b\<rparr>) = a"
    "\<And>a b. st_vy (s\<lparr>st_vx := a, st_vy := b\<rparr>) = b" by simp_all
  show "st_vx (vortex_force vt s) = st_vx s + (- dy / d) * f - (dx / d) * f * 0.08"
    using c unfolding vortex_force_def Let_def dx_def dy_def d_def f_def
    by (simp only: if_True simp_thms sel)
  show "st_vy (vortex_force vt s) = st_vy s + (dx / d) * f - (dy / d) * f * 0.08"
    using c unfolding vortex_force_def Let_def dx_def dy_def d_def f_def
    by (simp only: if_True simp_thms sel)
qed

lemma unit_vectors:
  fixes d dx dy :: real
  assumes ne: "d \<noteq> 0" and sq: "d * d = dx * dx + dy * dy"
  shows "(- dy / d) * dx + (dx / d) * dy = 0"
    and "(- dy / d) * (- dy / d) + (dx / d) * (dx / d) = 1"
proof -
  show "(- dy / d) * dx + (dx / d) * dy = 0" by (simp add: field_simps)
  have "(- dy / d) * (- dy / d) + (dx / d) * (dx / d) = (dx * dx + dy * dy) / (d * d)"
    by (simp add: add_divide_distrib)
  also have "\<dots> = (d * d) / (d * d)" by (simp only: sq)
  also have "\<dots> = 1" using ne by simp
  finally show "(- dy / d) * (- dy / d) + (dx / d) * (dx / d) = 1" .
qed

lemma vortex_force_delta_pos:
  assumes "st_x s' = st_x s" and "st_y s' = st_y s"
  shows "st_vx (vortex_force vt s') - st_vx s' = st_vx (vortex_force vt s) - st_vx s"
    and "st_vy (vortex_force vt s') - st_vy s' = st_vy (vortex_force vt s) - st_vy s"
  using assms by (simp_all add: vortex_force_def Let_def)


lemma vortex_forces_additive:
  "st_vx (vortex_forces vts s) = st_vx s + (\<Sum>vt\<leftarrow>vts. st_vx (vortex_force vt s) - st_vx s)
   \<and> st_vy (vortex_forces vts s) = st_vy s + (\<Sum>vt\<leftarrow>vts. st_vy (vortex_force vt s) - st_vy s)"
proof (induction vts arbitrary: s)
  case Nil
  show ?case by simp
next
  case (Cons vt vts)
  let ?s1 = "vortex_force vt s"
  have px: "st_x ?s1 = st_x s" and py: "st_y ?s1 = st_y s" by simp_all
  have dx: "(\<Sum>v\<leftarrow>vts. st_vx (vortex_force v ?s1) - st_vx ?s1) = (\<Sum>v\<leftarrow>vts. st_vx (vortex_force v s) - st_vx s)"
    by (simp only: vortex_force_delta_pos(1) [OF px py])
  have dy: "(\<Sum>v\<leftarrow>vts. st_vy (vortex_force v ?s1) - st_vy ?s1) = (\<Sum>v\<leftarrow>vts. st_vy (vortex_force v s) - st_vy s)"
    by (simp only: vortex_force_delta_pos(2) [OF px py])
  have "st_vx (vortex_forces (vt # vts) s) = st_vx ?s1 + (\<Sum>v\<leftarrow>vts. st_vx (vortex_force v s) - st_vx s)"
    using Cons.IH [of ?s1] dx by (simp only: vortex_forces.simps)
  moreover have "st_vy (vortex_forces (vt # vts) s) = st_vy ?s1 + (\<Sum>v\<leftarrow>vts. st_vy (vortex_force v s) - st_vy s)"
    using Cons.IH [of ?s1] dy by (simp only: vortex_forces.simps)
  ultimately show ?case by simp
qed

text \<open>The component of a centre's contribution along the radius vector: negative (toward
  the centre) for a positive strength, positive (away from it) for a negative one.\<close>

lemma vortex_radial_component:
  fixes s :: star and vt :: vortex
  defines "dx \<equiv> st_x s - vt_x vt" and "dy \<equiv> st_y s - vt_y vt"
  defines "d \<equiv> sqrt (dx * dx + dy * dy)"
  defines "f \<equiv> (1 - d / vt_r vt) * vt_str vt * 0.25"
  assumes "1 < d" and "d < vt_r vt"
  shows "(st_vx (vortex_force vt s) - st_vx s) * dx + (st_vy (vortex_force vt s) - st_vy s) * dy
           = - (0.08 * f * d)"
proof -
  have ne: "d \<noteq> 0" using assms(5) by linarith
  have sq: "d * d = dx * dx + dy * dy" unfolding d_def by simp
  have vx: "st_vx (vortex_force vt s) - st_vx s = (- dy / d) * f - (dx / d) * f * 0.08"
    using vortex_force_inside(1) [of s vt] assms(5,6) unfolding dx_def dy_def d_def f_def by simp
  have vy: "st_vy (vortex_force vt s) - st_vy s = (dx / d) * f - (dy / d) * f * 0.08"
    using vortex_force_inside(2) [of s vt] assms(5,6) unfolding dx_def dy_def d_def f_def by simp
  have "((- dy / d) * f - (dx / d) * f * 0.08) * dx + ((dx / d) * f - (dy / d) * f * 0.08) * dy
          = - (0.08 * f * ((dx * dx + dy * dy) / d))"
    using ne by (simp add: field_simps)
  also have "(dx * dx + dy * dy) / d = d" using ne sq by (simp add: field_simps)
  finally show ?thesis unfolding vx vy .
qed

lemma sqrt_far: "0 \<le> r \<Longrightarrow> r * r \<le> a \<Longrightarrow> r \<le> sqrt a"
  using real_le_rsqrt [of r a] by (simp add: power2_eq_square)

lemma vortex_force_far:
  assumes "0 \<le> vt_r vt"
    and "vt_r vt * vt_r vt \<le> (st_x s - vt_x vt) * (st_x s - vt_x vt) + (st_y s - vt_y vt) * (st_y s - vt_y vt)"
  shows "vortex_force vt s = s"
  by (rule vortex_force_outside) (rule disjI1, rule sqrt_far [OF assms])

lemma resize_1000_centers:
  "sc_vortexCenters (resize 1000 1000 scene0) =
     [\<lparr>vt_x = 250, vt_y = 220, vt_str = 0.70, vt_r = 160\<rparr>,
      \<lparr>vt_x = 620, vt_y = 140, vt_str = - 0.55, vt_r = 140\<rparr>,
      \<lparr>vt_x = 450, vt_y = 480, vt_str = 0.45, vt_r = 180\<rparr>,
      \<lparr>vt_x = 120, vt_y = 600, vt_str = - 0.35, vt_r = 120\<rparr>,
      \<lparr>vt_x = 800, vt_y = 380, vt_str = 0.60, vt_r = 150\<rparr>]"
  by (simp add: resize_def Let_def)

lemma probe_second_vortex:
  "vortex_force \<lparr>vt_x = 620, vt_y = 140, vt_str = - 0.55, vt_r = 140\<rparr> (star_at 630 140) =
     (star_at 630 140)\<lparr>st_vx := 143 / 14000, st_vy := - 143 / 1120\<rparr>"
proof -
  have d: "sqrt (10 * 10) = (10::real)" using real_sqrt_abs2 [of "10::real"] by simp
  show ?thesis using d by (simp add: vortex_force_def Let_def star_at_def)
qed


lemma probe_all_vortices:
  "vortex_forces (sc_vortexCenters (resize 1000 1000 scene0)) (star_at 630 140) =
     (star_at 630 140)\<lparr>st_vx := 143 / 14000, st_vy := - 143 / 1120\<rparr>"
proof -
  let ?s = "star_at 630 140"
  let ?s' = "?s\<lparr>st_vx := 143 / 14000, st_vy := - 143 / 1120\<rparr>"
  have p: "st_x ?s = 630" "st_y ?s = 140" "st_x ?s' = 630" "st_y ?s' = 140"
    by (simp_all add: star_at_def)
  have f1: "vortex_force \<lparr>vt_x = 250, vt_y = 220, vt_str = 0.70, vt_r = 160\<rparr> ?s = ?s"
    by (rule vortex_force_far) (simp_all add: p)
  have f3: "vortex_force \<lparr>vt_x = 450, vt_y = 480, vt_str = 0.45, vt_r = 180\<rparr> ?s' = ?s'"
    by (rule vortex_force_far) (simp_all add: p)
  have f4: "vortex_force \<lparr>vt_x = 120, vt_y = 600, vt_str = - 0.35, vt_r = 120\<rparr> ?s' = ?s'"
    by (rule vortex_force_far) (simp_all add: p)
  have f5: "vortex_force \<lparr>vt_x = 800, vt_y = 380, vt_str = 0.60, vt_r = 150\<rparr> ?s' = ?s'"
    by (rule vortex_force_far) (simp_all add: p)
  show ?thesis
    by (simp only: resize_1000_centers vortex_forces.simps f1 probe_second_vortex f3 f4 f5)
qed

text \<open>
  Claim C1. The term that the code's comment calls a slight centripetal pull is
  \<open>- (dx / d) * f * 0.08\<close>, and \<open>f\<close> has the sign of the strength. For the two centres of
  negative strength it therefore points away from the centre. On a surface of 1000 by
  1000 a star at rest at \<open>(630, 140)\<close> is at distance 10 from the second centre
  \<open>(620, 140)\<close> (strength \<open>- 0.55\<close>, radius 140) and outside the other four; the vortex
  loop gives it the velocity \<open>(143 / 14000, - 143 / 1120)\<close>, whose component along the
  radius vector \<open>(10, 0)\<close> is positive: away from the centre.
\<close>

theorem vortex_radial_term_outward_for_negative_strength:
  "st_vx (vortex_forces (sc_vortexCenters (resize 1000 1000 scene0)) (star_at 630 140))
     - st_vx (star_at 630 140) = 143 / 14000
   \<and> st_vy (vortex_forces (sc_vortexCenters (resize 1000 1000 scene0)) (star_at 630 140))
     - st_vy (star_at 630 140) = - 143 / 1120
   \<and> 0 < (st_vx (vortex_forces (sc_vortexCenters (resize 1000 1000 scene0)) (star_at 630 140))
            - st_vx (star_at 630 140)) * (st_x (star_at 630 140) - 620)
         + (st_vy (vortex_forces (sc_vortexCenters (resize 1000 1000 scene0)) (star_at 630 140))
            - st_vy (star_at 630 140)) * (st_y (star_at 630 140) - 140)"
  by (simp add: probe_all_vortices) (simp add: star_at_def)

subsection \<open>A wrap clears the trail\<close>

text \<open>A frame replaces the star at every index by the loop body applied to it.\<close>

lemma update_stars_nth:
  "i < length ss \<Longrightarrow> update_stars W H vcs m t ss ! i = update_star W H vcs m t (ss ! i)"
proof (induction ss arbitrary: i)
  case Nil
  then show ?case by simp
next
  case (Cons s ss)
  then show ?case by (cases i) simp_all
qed

lemma star_after_frame:
  assumes "i < length (sc_stars sc)"
  shows "sc_stars (step sc (Frame r)) ! i =
           update_star (sc_W sc) (sc_H sc) (sc_vortexCenters sc) (sc_mouse sc)
             (sc_time sc + 0.016) (sc_stars sc ! i)"
  using assms by (simp add: update_def Let_def update_stars_nth)

text \<open>
  Claim C2. Take a frame and the star at index \<open>i\<close>, and let \<open>p\<close> be that star after
  the statements up to the move. When \<open>p\<close> is outside the surface by more than the
  margin of 20, the flag \<^verbatim>\<open>wrapped\<close> is set, the star is translated to the opposite edge
  and its trail is emptied before the sample of this tick is pushed: the push finds
  length 0, and after the frame the trail of the star at index \<open>i\<close> holds the position
  after the wrap and nothing of what it held before (for a capacity of at least one,
  which \<^verbatim>\<open>makeStar\<close> always gives).
\<close>

theorem wrap_clears_trail:
  fixes sc :: scene and r :: frame_rand and i :: nat
  defines "p \<equiv> integrate (sc_vortexCenters sc) (sc_mouse sc) (sc_time sc + 0.016) (sc_stars sc ! i)"
  defines "s' \<equiv> sc_stars (step sc (Frame r)) ! i"
  assumes i: "i < length (sc_stars sc)"
    and out: "st_x p < - 20 \<or> st_x p > real_of_int (sc_W sc) + 20
              \<or> st_y p < - 20 \<or> st_y p > real_of_int (sc_H sc) + 20"
  shows "snd (wrap_edges (sc_W sc) (sc_H sc) p)
         \<and> st_trail (fst (wrap_edges (sc_W sc) (sc_H sc) p)) = []
         \<and> st_trail s' = (if 1 \<le> st_maxTrail (sc_stars sc ! i) then [(st_x s', st_y s')] else [])
         \<and> st_x s' = (if st_x p < - 20 then st_x p + (real_of_int (sc_W sc) + 40)
                       else if st_x p > real_of_int (sc_W sc) + 20
                       then st_x p - (real_of_int (sc_W sc) + 40) else st_x p)
         \<and> st_y s' = (if st_y p < - 20 then st_y p + (real_of_int (sc_H sc) + 40)
                       else if st_y p > real_of_int (sc_H sc) + 20
                       then st_y p - (real_of_int (sc_H sc) + 40) else st_y p)"
proof -
  let ?W = "sc_W sc" and ?H = "sc_H sc"
  have s': "s' = trail_step (fst (wrap_edges ?W ?H p))"
    unfolding s'_def p_def star_after_frame [OF i] update_star_def by (rule refl)
  have w: "snd (wrap_edges ?W ?H p)" using out by (simp only: wrapped_iff)
  have e: "st_trail (fst (wrap_edges ?W ?H p)) = []" using w by (simp add: wrap_edges_trail)
  have m: "st_maxTrail (fst (wrap_edges ?W ?H p)) = st_maxTrail (sc_stars sc ! i)"
    by (simp add: p_def)
  have t: "st_trail s' = (if 1 \<le> st_maxTrail (sc_stars sc ! i) then [(st_x s', st_y s')] else [])"
    unfolding s' using e m by (simp add: trail_step_def Let_def)
  have x: "st_x s' = st_x (fst (wrap_edges ?W ?H p))" and y: "st_y s' = st_y (fst (wrap_edges ?W ?H p))"
    unfolding s' by simp_all
  show ?thesis using w e t unfolding x y wrap_edges_position by blast
qed

lemma wrap_scene_fields:
  "sc_W wrap_scene = 1000" "sc_H wrap_scene = 1000" "sc_mouse wrap_scene = \<lparr>mouse_x = None, mouse_y = None\<rparr>"
  "sc_time wrap_scene = 0"
  "sc_vortexCenters wrap_scene = sc_vortexCenters (resize 1000 1000 scene0)"
  "sc_stars wrap_scene = [(star_at (- 19) 140)
        \<lparr>st_vx := - 4, st_trail := [(- 11, 140), (- 15, 140), (- 19, 140)]\<rparr>]"
  by (simp_all add: wrap_scene_def resize_def Let_def scene0_def)

lemma far_from_all_centres:
  assumes "st_x s = - 19" and "st_y s = 140"
  shows "vortex_forces (sc_vortexCenters (resize 1000 1000 scene0)) s = s"
proof -
  have f1: "vortex_force \<lparr>vt_x = 250, vt_y = 220, vt_str = 0.70, vt_r = 160\<rparr> s = s"
    by (rule vortex_force_far) (simp_all add: assms)
  have f2: "vortex_force \<lparr>vt_x = 620, vt_y = 140, vt_str = - 0.55, vt_r = 140\<rparr> s = s"
    by (rule vortex_force_far) (simp_all add: assms)
  have f3: "vortex_force \<lparr>vt_x = 450, vt_y = 480, vt_str = 0.45, vt_r = 180\<rparr> s = s"
    by (rule vortex_force_far) (simp_all add: assms)
  have f4: "vortex_force \<lparr>vt_x = 120, vt_y = 600, vt_str = - 0.35, vt_r = 120\<rparr> s = s"
    by (rule vortex_force_far) (simp_all add: assms)
  have f5: "vortex_force \<lparr>vt_x = 800, vt_y = 380, vt_str = 0.60, vt_r = 150\<rparr> s = s"
    by (rule vortex_force_far) (simp_all add: assms)
  show ?thesis by (simp only: resize_1000_centers vortex_forces.simps f1 f2 f3 f4 f5)
qed

lemma wrap_scene_moved:
  "st_x (integrate (sc_vortexCenters wrap_scene) (sc_mouse wrap_scene) (sc_time wrap_scene + 0.016)
     (sc_stars wrap_scene ! 0)) = - 229 / 10"
  "st_y (integrate (sc_vortexCenters wrap_scene) (sc_mouse wrap_scene) (sc_time wrap_scene + 0.016)
     (sc_stars wrap_scene ! 0)) = 140"
proof -
  let ?s = "(star_at (- 19) 140)\<lparr>st_vx := - 4, st_trail := [(- 11, 140), (- 15, 140), (- 19, 140)]\<rparr>"
  have far: "vortex_forces (sc_vortexCenters (resize 1000 1000 scene0)) (twinkle t ?s) = twinkle t ?s" for t
    by (rule far_from_all_centres) (simp_all add: star_at_def)
  show "st_x (integrate (sc_vortexCenters wrap_scene) (sc_mouse wrap_scene) (sc_time wrap_scene + 0.016)
     (sc_stars wrap_scene ! 0)) = - 229 / 10"
    by (simp add: wrap_scene_fields integrate_def far mouse_influence_def)
       (simp add: move_def damping_def star_at_def)
  show "st_y (integrate (sc_vortexCenters wrap_scene) (sc_mouse wrap_scene) (sc_time wrap_scene + 0.016)
     (sc_stars wrap_scene ! 0)) = 140"
    by (simp add: wrap_scene_fields integrate_def far mouse_influence_def)
       (simp add: move_def damping_def star_at_def)
qed

theorem wrap_clears_trail_witness:
  "0 < length (sc_stars wrap_scene)
   \<and> st_x (integrate (sc_vortexCenters wrap_scene) (sc_mouse wrap_scene) (sc_time wrap_scene + 0.016)
        (sc_stars wrap_scene ! 0)) < - 20
   \<and> st_trail (sc_stars wrap_scene ! 0) = [(- 11, 140), (- 15, 140), (- 19, 140)]
   \<and> st_trail (sc_stars (step wrap_scene (Frame half_draws)) ! 0) = [(10171 / 10, 140)]"
proof -
  have i: "0 < length (sc_stars wrap_scene)" by (simp add: wrap_scene_fields)
  have out: "st_x (integrate (sc_vortexCenters wrap_scene) (sc_mouse wrap_scene)
        (sc_time wrap_scene + 0.016) (sc_stars wrap_scene ! 0)) < - 20"
    by (simp only: wrap_scene_moved)
  have m: "1 \<le> st_maxTrail (sc_stars wrap_scene ! 0)"
    by (simp add: wrap_scene_fields star_at_def)
  have old: "st_trail (sc_stars wrap_scene ! 0) = [(- 11, 140), (- 15, 140), (- 19, 140)]"
    by (simp add: wrap_scene_fields)
  from out have out':
    "st_x (integrate (sc_vortexCenters wrap_scene) (sc_mouse wrap_scene)
        (sc_time wrap_scene + 0.016) (sc_stars wrap_scene ! 0)) < - 20
     \<or> st_x (integrate (sc_vortexCenters wrap_scene) (sc_mouse wrap_scene)
        (sc_time wrap_scene + 0.016) (sc_stars wrap_scene ! 0)) > real_of_int (sc_W wrap_scene) + 20
     \<or> st_y (integrate (sc_vortexCenters wrap_scene) (sc_mouse wrap_scene)
        (sc_time wrap_scene + 0.016) (sc_stars wrap_scene ! 0)) < - 20
     \<or> st_y (integrate (sc_vortexCenters wrap_scene) (sc_mouse wrap_scene)
        (sc_time wrap_scene + 0.016) (sc_stars wrap_scene ! 0)) > real_of_int (sc_H wrap_scene) + 20"
    by blast
  note t = wrap_clears_trail [OF i out', of half_draws, unfolded wrap_scene_moved]
  have "st_trail (sc_stars (step wrap_scene (Frame half_draws)) ! 0) = [(10171 / 10, 140)]"
    using t m by (simp add: wrap_scene_fields(1,2))
  then show ?thesis using i out old by blast
qed

subsection \<open>Damping\<close>

text \<open>
  In exact arithmetic the damping scales the velocity by \<open>0.975\<close>, so a nonzero
  velocity gets strictly smaller. The code computes in binary64, where the product is
  rounded; the lemmas below are about the rounded product.
\<close>

lemma damping_exact_strict:
  assumes "st_vx s \<noteq> 0 \<or> st_vy s \<noteq> 0"
  shows "speed (damping s) < speed s"
proof -
  have "0 < st_vx s * st_vx s + st_vy s * st_vy s"
    using assms by (metis sum_squares_gt_zero_iff)
  moreover have "st_vx s * 0.975 * (st_vx s * 0.975) + st_vy s * 0.975 * (st_vy s * 0.975)
      = 0.975 * 0.975 * (st_vx s * st_vx s + st_vy s * st_vy s)" by (simp add: algebra_simps)
  ultimately have "st_vx s * 0.975 * (st_vx s * 0.975) + st_vy s * 0.975 * (st_vy s * 0.975)
      < st_vx s * st_vx s + st_vy s * st_vy s" by simp
  then show ?thesis unfolding speed_def damping_def by (simp del: real_sqrt_less_iff add: real_sqrt_less_mono)
qed

subsection \<open>Rounding to binary64\<close>

lemma rne_of_int [simp]: "rne (real_of_int n) = n"
  by (simp add: rne_def)

lemma rne_bounds: "\<lfloor>r\<rfloor> \<le> rne r \<and> rne r \<le> \<lfloor>r\<rfloor> + 1"
  by (simp add: rne_def Let_def)

lemma rne_le: 
  assumes "r \<le> real_of_int M" shows "rne r \<le> M"
proof (cases "r = real_of_int M")
  case True
  then show ?thesis by simp
next
  case False
  then have "r < real_of_int M" using assms by simp
  then have "\<lfloor>r\<rfloor> < M" by (simp add: floor_less_iff)
  then show ?thesis using rne_bounds [of r] by linarith
qed

lemma rne_ge:
  assumes "real_of_int M \<le> r" shows "M \<le> rne r"
proof -
  have "M \<le> \<lfloor>r\<rfloor>" using assms by (simp add: le_floor_iff)
  then show ?thesis using rne_bounds [of r] by linarith
qed

lemma rne_less:
  assumes "r < real_of_int M - 1 / 2" shows "rne r < M"
proof -
  have "r < real_of_int M" using assms by simp
  then have fl: "\<lfloor>r\<rfloor> < M" by (simp add: floor_less_iff)
  show ?thesis
  proof (cases "\<lfloor>r\<rfloor> = M - 1")
    case True
    then have "r - real_of_int \<lfloor>r\<rfloor> < 1 / 2" using assms by simp
    then have "rne r = \<lfloor>r\<rfloor>" by (simp add: rne_def Let_def)
    then show ?thesis using fl by simp
  next
    case False
    then have "\<lfloor>r\<rfloor> + 1 < M" using fl by linarith
    then show ?thesis using rne_bounds [of r] by linarith
  qed
qed

lemma rne_minus: "rne (- r) = - rne r"
proof (cases "r = real_of_int \<lfloor>r\<rfloor>")
  case True
  then obtain n where "r = real_of_int n" ..
  then have "rne (- r) = rne (real_of_int (- n))" by simp
  also have "\<dots> = - n" by (rule rne_of_int)
  finally show ?thesis using \<open>r = real_of_int n\<close> by simp
next
  case False
  let ?n = "\<lfloor>r\<rfloor>"
  have le: "real_of_int ?n \<le> r" by (rule of_int_floor_le)
  have lt: "real_of_int ?n < r" using le False by (metis less_eq_real_def)
  have ub: "r < real_of_int ?n + 1" by linarith
  have fm: "\<lfloor>- r\<rfloor> = - ?n - 1"
  proof (rule floor_unique)
    show "real_of_int (- ?n - 1) \<le> - r" using ub by linarith
    show "- r < real_of_int (- ?n - 1) + 1" using lt by linarith
  qed
  have dm: "- r - real_of_int \<lfloor>- r\<rfloor> = 1 - (r - real_of_int ?n)" by (simp add: fm)
  consider "r - real_of_int ?n < 1 / 2" | "1 / 2 < r - real_of_int ?n" | "r - real_of_int ?n = 1 / 2"
    by linarith
  then show ?thesis
  proof cases
    case 1
    then have a: "rne r = ?n" by (simp add: rne_def Let_def)
    have "1 / 2 < - r - real_of_int \<lfloor>- r\<rfloor>" using 1 dm by linarith
    then have "rne (- r) = \<lfloor>- r\<rfloor> + 1" by (simp add: rne_def Let_def)
    then show ?thesis using a fm by simp
  next
    case 2
    then have a: "rne r = ?n + 1" by (simp add: rne_def Let_def)
    have "- r - real_of_int \<lfloor>- r\<rfloor> < 1 / 2" using 2 dm by linarith
    then have "rne (- r) = \<lfloor>- r\<rfloor>" by (simp add: rne_def Let_def)
    then show ?thesis using a fm by simp
  next
    case 3
    then have a: "rne r = (if even ?n then ?n else ?n + 1)" by (simp add: rne_def Let_def)
    have "- r - real_of_int \<lfloor>- r\<rfloor> = 1 / 2" using 3 dm by linarith
    then have "rne (- r) = (if even \<lfloor>- r\<rfloor> then \<lfloor>- r\<rfloor> else \<lfloor>- r\<rfloor> + 1)"
      by (simp add: rne_def Let_def)
    then show ?thesis using a fm by (simp split: if_splits)
  qed
qed

lemma ulp_exp_ge: "- 1074 \<le> ulp_exp x"
  by (simp add: ulp_exp_def)

lemma ulp_exp_minus [simp]: "ulp_exp (- x) = ulp_exp x"
  by (simp add: ulp_exp_def)

lemma ulp_exp_mono:
  assumes "0 < \<bar>x\<bar>" and "\<bar>x\<bar> \<le> \<bar>y\<bar>"
  shows "ulp_exp x \<le> ulp_exp y"
proof -
  have "log 2 \<bar>x\<bar> \<le> log 2 \<bar>y\<bar>" using assms by (intro log_mono) simp_all
  then have "\<lfloor>log 2 \<bar>x\<bar>\<rfloor> \<le> \<lfloor>log 2 \<bar>y\<bar>\<rfloor>" by (rule floor_mono)
  then show ?thesis unfolding ulp_exp_def by linarith
qed

lemma pow2_powr: "(2::real) powr real_of_int k = 2 powi k"
  by (rule powr_real_of_int') simp_all

lemma ulp_exp_normal:
  assumes "ulp_exp v \<noteq> - 1074" and "v \<noteq> 0"
  shows "2 powi (ulp_exp v + 52) \<le> \<bar>v\<bar>"
proof -
  have e: "ulp_exp v + 52 = \<lfloor>log 2 \<bar>v\<bar>\<rfloor>" using assms(1) unfolding ulp_exp_def by linarith
  have c1: "(1::real) < 2" by simp
  have c2: "0 < \<bar>v\<bar>" using assms(2) by simp
  have h: "real_of_int (ulp_exp v + 52) \<le> log 2 \<bar>v\<bar>" unfolding e by (rule of_int_floor_le)
  have "2 powr real_of_int (ulp_exp v + 52) \<le> \<bar>v\<bar>"
    by (rule iffD1 [OF le_log_iff [OF c1 c2] h])
  then show ?thesis unfolding pow2_powr .
qed

lemma ulp_exp_small:
  assumes "0 < \<bar>x\<bar>" and "\<bar>x\<bar> < 2 powi (- 1021)"
  shows "ulp_exp x = - 1074"
proof -
  have c1: "(1::real) < 2" by simp
  have "\<bar>x\<bar> < 2 powr real_of_int (- 1021)" using assms(2) unfolding pow2_powr .
  then have "log 2 \<bar>x\<bar> < real_of_int (- 1021)"
    by (rule iffD2 [OF log_less_iff [OF c1 assms(1)]])
  then have "\<lfloor>log 2 \<bar>x\<bar>\<rfloor> < - 1021" by (simp only: floor_less_iff)
  then show ?thesis unfolding ulp_exp_def by linarith
qed

lemma rne_0 [simp]: "rne 0 = 0"
  by (simp add: rne_def)

lemma round64_0 [simp]: "round64 0 = 0"
  by (simp add: round64_def)

lemma round64_minus: "round64 (- x) = - round64 x"
  by (simp add: round64_def rne_minus)

lemma pow2_split:
  assumes "e' \<le> e"
  shows "(2::real) powi e = real_of_int (2 ^ nat (e - e')) * 2 powi e'"
proof -
  have "(2::real) powi e = 2 powi ((e - e') + e')" by simp
  also have "\<dots> = 2 powi (e - e') * 2 powi e'" by (rule power_int_add) simp
  also have "(2::real) powi (e - e') = 2 ^ nat (e - e')" using assms by (simp add: power_int_def)
  finally show ?thesis by simp
qed

text \<open>A value that rounding leaves as it is is a multiple of every grid step at or below
  its own.\<close>

lemma fixed_point_on_grid:
  assumes fp: "round64 v = v" and le: "e' \<le> ulp_exp v"
  shows "v = real_of_int (rne (v / 2 powi ulp_exp v) * 2 ^ nat (ulp_exp v - e')) * 2 powi e'"
proof -
  define n where "n = rne (v / 2 powi ulp_exp v)"
  define k where "k = nat (ulp_exp v - e')"
  have "v = real_of_int n * 2 powi ulp_exp v"
    using fp unfolding n_def by (simp add: round64_def)
  also have "\<dots> = real_of_int n * (real_of_int (2 ^ k) * 2 powi e')"
    unfolding k_def by (simp only: pow2_split [OF le, symmetric])
  also have "\<dots> = real_of_int (n * 2 ^ k) * 2 powi e'" by simp
  finally show ?thesis unfolding n_def k_def .
qed

lemma mantissa_ge_20:
  assumes fp: "round64 v = v" and big: "20 * 2 powi (- 1074) \<le> v"
  shows "20 \<le> rne (v / 2 powi ulp_exp v)"
proof -
  let ?n = "rne (v / 2 powi ulp_exp v)"
  have v: "v = real_of_int ?n * 2 powi ulp_exp v" using fp by (simp add: round64_def)
  have pos: "(0::real) < 2 powi (- 1074)" by (rule zero_less_power_int) simp
  then have vpos: "0 < v" using big by linarith
  show ?thesis
  proof (cases "ulp_exp v = - 1074")
    case True
    have "20 * 2 powi (- 1074) \<le> real_of_int ?n * 2 powi (- 1074)"
      using big v True by simp
    then have "(20::real) \<le> real_of_int ?n" using pos by (rule_tac mult_right_le_imp_le)
    then show ?thesis by linarith
  next
    case False
    have p: "(0::real) < 2 powi ulp_exp v" by (rule zero_less_power_int) simp
    have "2 powi (ulp_exp v + 52) \<le> \<bar>v\<bar>" using False vpos by (intro ulp_exp_normal) simp_all
    moreover have "(2::real) powi (ulp_exp v + 52) = 2 powi 52 * 2 powi ulp_exp v"
      by (subst add.commute, rule power_int_add) simp
    ultimately have "2 powi 52 * 2 powi ulp_exp v \<le> real_of_int ?n * 2 powi ulp_exp v"
      using v vpos by simp
    then have "(2::real) powi 52 \<le> real_of_int ?n" using p by (rule_tac mult_right_le_imp_le)
    then have "(20::real) \<le> real_of_int ?n" by simp
    then show ?thesis by linarith
  qed
qed

lemma round64_scaled:
  assumes fp: "round64 v = v" and vpos: "0 < v" and c0: "0 < c" and c1: "c \<le> 1"
  shows "0 \<le> round64 (v * c) \<and> round64 (v * c) \<le> v
         \<and> (20 * 2 powi (- 1074) \<le> v \<longrightarrow> 1 / 2 < 20 * (1 - c) \<longrightarrow> round64 (v * c) < v)"
proof -
  define x where "x = v * c"
  define n where "n = rne (v / 2 powi ulp_exp v)"
  define k where "k = nat (ulp_exp v - ulp_exp x)"
  define M where "M = n * 2 ^ k"
  have xpos: "0 < x" using vpos c0 by (simp add: x_def)
  have xle: "x \<le> v" using vpos c1 by (simp add: x_def mult_left_le)
  have le: "ulp_exp x \<le> ulp_exp v"
    using xpos xle vpos by (intro ulp_exp_mono) simp_all
  have v: "v = real_of_int M * 2 powi ulp_exp x"
    unfolding M_def n_def k_def by (rule fixed_point_on_grid [OF fp le])
  have p: "(0::real) < 2 powi ulp_exp x" by (rule zero_less_power_int) simp
  have Mpos: "0 < real_of_int M"
    using vpos p v by (metis zero_less_mult_pos2)
  have r: "x / 2 powi ulp_exp x = real_of_int M * c"
  proof -
    have "x = v * c" by (simp add: x_def)
    also have "\<dots> = (real_of_int M * 2 powi ulp_exp x) * c" by (subst v) (rule refl)
    finally have "x = (real_of_int M * c) * 2 powi ulp_exp x" by (simp add: mult.commute mult.left_commute)
    then have "x / 2 powi ulp_exp x = (real_of_int M * c) * 2 powi ulp_exp x / 2 powi ulp_exp x"
      by simp
    then show ?thesis using p by simp
  qed
  have rx: "round64 x = real_of_int (rne (real_of_int M * c)) * 2 powi ulp_exp x"
    by (simp add: round64_def r)
  have "real_of_int 0 \<le> real_of_int M * c" using Mpos c0 by simp
  then have "0 \<le> rne (real_of_int M * c)" by (rule rne_ge)
  then have lo: "0 \<le> round64 x" using p by (simp add: rx)
  have "real_of_int M * c \<le> real_of_int M" using Mpos c1 by (simp add: mult_left_le)
  then have "rne (real_of_int M * c) \<le> M" by (rule rne_le)
  then have "real_of_int (rne (real_of_int M * c)) \<le> real_of_int M" by simp
  then have "real_of_int (rne (real_of_int M * c)) * 2 powi ulp_exp x \<le> real_of_int M * 2 powi ulp_exp x"
    using p by (simp only: mult_le_cancel_right_pos)
  then have hi: "round64 x \<le> v" using rx v by simp
  have strict: "round64 x < v" if big: "20 * 2 powi (- 1074) \<le> v" and gap: "1 / 2 < 20 * (1 - c)"
  proof -
    have n20: "20 \<le> n" unfolding n_def by (rule mantissa_ge_20 [OF fp big])
    have "n * 1 \<le> n * 2 ^ k" using n20 by (intro mult_left_mono) simp_all
    then have "n \<le> M" unfolding M_def by (simp only: mult_1_right)
    then have "20 \<le> M" using n20 by linarith
    then have M20: "(20::real) \<le> real_of_int M" by simp
    have cl: "0 \<le> 1 - c" using c1 by simp
    have "20 * (1 - c) \<le> real_of_int M * (1 - c)" using M20 cl by (rule mult_right_mono)
    then have "1 / 2 < real_of_int M * (1 - c)" using gap by linarith
    then have "real_of_int M * c < real_of_int M - 1 / 2" by (simp add: algebra_simps)
    then have "rne (real_of_int M * c) < M" by (rule rne_less)
    then have "real_of_int (rne (real_of_int M * c)) < real_of_int M" by simp
    then have "real_of_int (rne (real_of_int M * c)) * 2 powi ulp_exp x < real_of_int M * 2 powi ulp_exp x"
      using p by (simp only: mult_less_cancel_right_pos)
    then show ?thesis using rx v by simp
  qed
  show ?thesis using lo hi strict unfolding x_def by blast
qed

lemma ulp_exp_0975: "ulp_exp 0.975 = - 53"
proof -
  have "\<lfloor>log 2 (0.975::real)\<rfloor> = - 1"
    by (subst floor_log_eq_powr_iff) (simp_all add: powr_minus)
  then show ?thesis by (simp add: ulp_exp_def)
qed

lemma round64_0975: "round64 0.975 = 8782019273372467 / 2 ^ 53"
proof -
  have q: "(0.975::real) / 2 powi (- 53) = 87820192733724672 / 10"
    by (simp add: power_int_minus)
  have f: "\<lfloor>87820192733724672 / 10 :: real\<rfloor> = 8782019273372467" by simp
  have rn: "rne ((0.975::real) / 2 powi (- 53)) = 8782019273372467"
    unfolding q rne_def Let_def f by simp
  have "round64 0.975 = real_of_int (rne ((0.975::real) / 2 powi (- 53))) * 2 powi (- 53)"
    unfolding round64_def ulp_exp_0975 by (rule refl)
  also have "\<dots> = 8782019273372467 * 2 powi (- 53)" unfolding rn by simp
  also have "\<dots> = 8782019273372467 / 2 ^ 53" by (simp add: power_int_minus)
  finally show ?thesis .
qed

lemma round64_scaled_abs:
  assumes fp: "round64 v = v" and c0: "0 < c" and c1: "c \<le> 1"
  shows "\<bar>round64 (v * c)\<bar> \<le> \<bar>v\<bar>
         \<and> (20 * 2 powi (- 1074) \<le> \<bar>v\<bar> \<longrightarrow> 1 / 2 < 20 * (1 - c) \<longrightarrow> \<bar>round64 (v * c)\<bar> < \<bar>v\<bar>)"
proof -
  have tiny: "(0::real) < 20 * 2 powi (- 1074)"
    using zero_less_power_int [of "2::real" "- 1074"] by simp
  consider "0 < v" | "v = 0" | "v < 0" by linarith
  then show ?thesis
  proof cases
    case 1
    then show ?thesis using round64_scaled [OF fp 1 c0 c1] by simp
  next
    case 2
    then show ?thesis using tiny by simp
  next
    case 3
    have fp': "round64 (- v) = - v" using fp by (simp add: round64_minus)
    have pos: "0 < - v" using 3 by simp
    have m: "round64 (- v * c) = - round64 (v * c)"
      using round64_minus [of "v * c"] by simp
    show ?thesis using round64_scaled [OF fp' pos c0 c1] 3 unfolding m by simp
  qed
qed

lemma MIN_VALUE_pos: "0 < MIN_VALUE"
  unfolding MIN_VALUE_def by (rule zero_less_power_int) simp

lemma MIN_VALUE_small: "MIN_VALUE < 2 powi (- 1021)"
  unfolding MIN_VALUE_def by (rule power_int_strict_increasing) simp_all

lemma round64_tiny_multiple:
  assumes "0 < r" and "r \<le> 1"
  shows "round64 (MIN_VALUE * r) = real_of_int (rne r) * MIN_VALUE"
proof -
  have pos: "0 < MIN_VALUE * r" using MIN_VALUE_pos assms by simp
  have "MIN_VALUE * r \<le> MIN_VALUE" using MIN_VALUE_pos assms by (simp add: mult_left_le)
  then have "\<bar>MIN_VALUE * r\<bar> < 2 powi (- 1021)" using MIN_VALUE_small pos by linarith
  then have e: "ulp_exp (MIN_VALUE * r) = - 1074" using pos by (intro ulp_exp_small) simp_all
  have "MIN_VALUE * r / 2 powi (- 1074) = r" using MIN_VALUE_pos by (simp add: MIN_VALUE_def)
  then show ?thesis unfolding round64_def e by (simp add: MIN_VALUE_def)
qed

lemma rne_1 [simp]: "rne 1 = 1"
  using rne_of_int [of 1] by simp

lemma round64_tiny: "round64 MIN_VALUE = MIN_VALUE"
  using round64_tiny_multiple [of 1] by simp

lemma rne_c64: "rne (8782019273372467 / 2 ^ 53) = 1"
proof -
  have f: "\<lfloor>8782019273372467 / 2 ^ 53 :: real\<rfloor> = 0" by simp
  show ?thesis unfolding rne_def Let_def f by simp
qed

lemma damp_tiny: "round64 (MIN_VALUE * round64 0.975) = MIN_VALUE"
proof -
  have "round64 (MIN_VALUE * (8782019273372467 / 2 ^ 53)) =
          real_of_int (rne (8782019273372467 / 2 ^ 53)) * MIN_VALUE"
    by (rule round64_tiny_multiple) simp_all
  also have "\<dots> = MIN_VALUE" unfolding rne_c64 by simp
  finally show ?thesis unfolding round64_0975 .
qed

lemma c64_bounds: "0 < round64 0.975" "round64 0.975 \<le> 1" "1 / 2 < 20 * (1 - round64 0.975)"
  unfolding round64_0975 by simp_all

lemma damp_component:
  assumes "finite_double v"
  shows "\<bar>round64 (v * round64 0.975)\<bar> \<le> \<bar>v\<bar>"
    and "20 * 2 powi (- 1074) \<le> \<bar>v\<bar> \<Longrightarrow> \<bar>round64 (v * round64 0.975)\<bar> < \<bar>v\<bar>"
proof -
  have fp: "round64 v = v" using assms by (simp add: finite_double_def)
  note b = round64_scaled_abs [OF fp c64_bounds(1) c64_bounds(2)]
  show "\<bar>round64 (v * round64 0.975)\<bar> \<le> \<bar>v\<bar>" using b by blast
  show "\<bar>round64 (v * round64 0.975)\<bar> < \<bar>v\<bar>" if "20 * 2 powi (- 1074) \<le> \<bar>v\<bar>"
    using b that c64_bounds(3) by blast
qed

lemma abs_le_sq: "\<bar>a\<bar> \<le> \<bar>b\<bar> \<Longrightarrow> a * a \<le> b * (b::real)"
  using abs_le_square_iff [of a b] by (simp add: power2_eq_square)

lemma abs_less_sq: "\<bar>a\<bar> < \<bar>b\<bar> \<Longrightarrow> a * a < b * (b::real)"
  using mult_strict_mono' [of "\<bar>a\<bar>" "\<bar>b\<bar>" "\<bar>a\<bar>" "\<bar>b\<bar>"] by (simp add: abs_mult_self_eq)

lemma finite_double_0: "finite_double 0"
  by (simp add: finite_double_def)

lemma finite_double_tiny: "finite_double MIN_VALUE"
proof -
  have "MIN_VALUE < 2 ^ 1024" using MIN_VALUE_small by (simp add: power_int_minus)
  then show ?thesis using MIN_VALUE_pos by (simp add: finite_double_def round64_tiny)
qed

lemma ulp_exp_1: "ulp_exp 1 = - 52"
  by (simp add: ulp_exp_def)

lemma finite_double_1: "finite_double 1"
proof -
  have "(1::real) / 2 powi (- 52) = real_of_int (2 ^ 52)" by (simp add: power_int_minus)
  then have "rne ((1::real) / 2 powi (- 52)) = 2 ^ 52" by (simp only: rne_of_int)
  then have "round64 1 = real_of_int (2 ^ 52) * 2 powi (- 52)"
    unfolding round64_def ulp_exp_1 by simp
  also have "\<dots> = 1" by (simp add: power_int_minus)
  finally show ?thesis by (simp add: finite_double_def)
qed


text \<open>The threshold is sharp: the products of the subnormal values \<open>k * 2 ^ - 1074\<close>
  with \<open>1 \<le> k \<le> 19\<close> round back to the value itself.\<close>

lemma rne_nearest:
  assumes "real_of_int M - 1 / 2 < r" and "r \<le> real_of_int M"
  shows "rne r = M"
proof (cases "r = real_of_int M")
  case True
  then show ?thesis by simp
next
  case False
  then have lt: "r < real_of_int M" using assms(2) by simp
  have "real_of_int (M - 1) \<le> r" using assms(1) by simp
  then have f: "\<lfloor>r\<rfloor> = M - 1" using lt by (intro floor_unique) simp_all
  have "1 / 2 < r - real_of_int \<lfloor>r\<rfloor>" unfolding f using assms(1) by simp
  then show ?thesis unfolding rne_def Let_def f by simp
qed

lemma round64_subnormal:
  assumes "0 < r" and "r \<le> 2 ^ 52"
  shows "round64 (MIN_VALUE * r) = real_of_int (rne r) * MIN_VALUE"
proof -
  have pos: "0 < MIN_VALUE * r" using MIN_VALUE_pos assms by simp
  have "MIN_VALUE * r \<le> MIN_VALUE * 2 ^ 52" using MIN_VALUE_pos assms by simp
  also have "\<dots> = 2 powi (- 1074 + 52)"
    unfolding MIN_VALUE_def by (subst power_int_add) simp_all
  also have "\<dots> < 2 powi (- 1021)" by (rule power_int_strict_increasing) simp_all
  finally have "\<bar>MIN_VALUE * r\<bar> < 2 powi (- 1021)" using pos by simp
  then have e: "ulp_exp (MIN_VALUE * r) = - 1074" using pos by (intro ulp_exp_small) simp_all
  have "MIN_VALUE * r / 2 powi (- 1074) = r" using MIN_VALUE_pos by (simp add: MIN_VALUE_def)
  then show ?thesis unfolding round64_def e by (simp add: MIN_VALUE_def)
qed

lemma damping_keeps_small_subnormals:
  assumes "1 \<le> k" and "k \<le> 19"
  shows "round64 (real_of_int k * MIN_VALUE * round64 0.975) = real_of_int k * MIN_VALUE"
proof -
  let ?c = "8782019273372467 / 2 ^ 53 :: real"
  have k: "1 \<le> real_of_int k" "real_of_int k \<le> 19" using assms by simp_all
  have r0: "0 < real_of_int k * ?c" using k by simp
  have r1: "real_of_int k * ?c \<le> 2 ^ 52" using k by simp
  have "real_of_int k * (1 - ?c) \<le> 19 * (1 - ?c)" using k by (intro mult_right_mono) simp_all
  also have "\<dots> < 1 / 2" by simp
  finally have lo: "real_of_int k - 1 / 2 < real_of_int k * ?c" by (simp add: algebra_simps)
  have hi: "real_of_int k * ?c \<le> real_of_int k" using k by simp
  have n: "rne (real_of_int k * ?c) = k" by (rule rne_nearest [OF lo hi])
  have "round64 (MIN_VALUE * (real_of_int k * ?c)) = real_of_int (rne (real_of_int k * ?c)) * MIN_VALUE"
    by (rule round64_subnormal [OF r0 r1])
  moreover have "MIN_VALUE * (real_of_int k * ?c) = real_of_int k * MIN_VALUE * ?c"
    by (simp only: mult.assoc mult.left_commute [of MIN_VALUE])
  moreover have "real_of_int (rne (real_of_int k * ?c)) * MIN_VALUE = real_of_int k * MIN_VALUE"
    by (simp only: n)
  ultimately have "round64 (real_of_int k * MIN_VALUE * ?c) = real_of_int k * MIN_VALUE"
    by (simp only:)
  then show ?thesis unfolding round64_0975 .
qed

text \<open>
  Claim C5, as the code has it. For a star whose velocity components are finite binary64
  values, the damping statements never make the magnitude of the velocity larger, and
  make it strictly smaller whenever a component has magnitude at least
  \<open>20 * 2 ^ - 1074\<close> (about \<open>1e-322\<close>). Below that the rounded product can be the
  factor it started from: \<open>Number.MIN_VALUE * 0.975\<close> is \<open>Number.MIN_VALUE\<close> again, so a
  star with that velocity keeps it, and a nonzero velocity is not always made smaller.
\<close>

theorem damping_binary64_magnitude:
  assumes "finite_double (st_vx s)" and "finite_double (st_vy s)"
  shows "speed (damping64 s) \<le> speed s
         \<and> (20 * 2 powi (- 1074) \<le> \<bar>st_vx s\<bar> \<or> 20 * 2 powi (- 1074) \<le> \<bar>st_vy s\<bar>
              \<longrightarrow> speed (damping64 s) < speed s)"
proof -
  let ?x = "round64 (st_vx s * round64 0.975)" and ?y = "round64 (st_vy s * round64 0.975)"
  have v: "st_vx (damping64 s) = ?x" "st_vy (damping64 s) = ?y" by (simp_all add: damping64_def)
  have x: "?x * ?x \<le> st_vx s * st_vx s" by (rule abs_le_sq [OF damp_component(1) [OF assms(1)]])
  have y: "?y * ?y \<le> st_vy s * st_vy s" by (rule abs_le_sq [OF damp_component(1) [OF assms(2)]])
  have le: "speed (damping64 s) \<le> speed s"
    unfolding speed_def v using x y by (intro real_sqrt_le_mono add_mono)
  have lt: "speed (damping64 s) < speed s"
    if "20 * 2 powi (- 1074) \<le> \<bar>st_vx s\<bar> \<or> 20 * 2 powi (- 1074) \<le> \<bar>st_vy s\<bar>"
    using that
  proof
    assume "20 * 2 powi (- 1074) \<le> \<bar>st_vx s\<bar>"
    then have "?x * ?x < st_vx s * st_vx s"
      by (intro abs_less_sq damp_component(2) [OF assms(1)])
    then show ?thesis unfolding speed_def v using y by (intro real_sqrt_less_mono add_less_le_mono)
  next
    assume "20 * 2 powi (- 1074) \<le> \<bar>st_vy s\<bar>"
    then have "?y * ?y < st_vy s * st_vy s"
      by (intro abs_less_sq damp_component(2) [OF assms(2)])
    then show ?thesis unfolding speed_def v using x by (intro real_sqrt_less_mono add_le_less_mono)
  qed
  show ?thesis using le lt by blast
qed

theorem damping_binary64_magnitude_witness:
  "finite_double (st_vx (star_moving 1 0)) \<and> finite_double (st_vy (star_moving 1 0))
   \<and> 20 * 2 powi (- 1074) \<le> \<bar>st_vx (star_moving 1 0)\<bar>
   \<and> speed (damping64 (star_moving 1 0)) < speed (star_moving 1 0)"
proof -
  have a: "finite_double (st_vx (star_moving 1 0))" by (simp add: star_moving_def finite_double_1)
  have b: "finite_double (st_vy (star_moving 1 0))" by (simp add: star_moving_def finite_double_0)
  have "20 * MIN_VALUE \<le> 20 * 2 powi (- 1021)" using MIN_VALUE_small by simp
  also have "\<dots> \<le> (1::real)" by (simp add: power_int_minus)
  finally have c: "20 * 2 powi (- 1074) \<le> \<bar>st_vx (star_moving 1 0)\<bar>"
    by (simp add: star_moving_def MIN_VALUE_def)
  show ?thesis using damping_binary64_magnitude [OF a b] a b c by blast
qed

text \<open>The star whose velocity is \<open>(Number.MIN_VALUE, 0)\<close>: both components are finite
  binary64 values, the velocity is not zero, and the damping returns the star as it
  was.\<close>

theorem damping_keeps_min_value:
  "finite_double (st_vx (star_moving (2 powi (- 1074)) 0))
   \<and> finite_double (st_vy (star_moving (2 powi (- 1074)) 0))
   \<and> st_vx (star_moving (2 powi (- 1074)) 0) \<noteq> 0
   \<and> damping64 (star_moving (2 powi (- 1074)) 0) = star_moving (2 powi (- 1074)) 0
   \<and> \<not> speed (damping64 (star_moving (2 powi (- 1074)) 0)) < speed (star_moving (2 powi (- 1074)) 0)"
proof -
  have t: "round64 (MIN_VALUE * round64 (39 / 40)) = MIN_VALUE" using damp_tiny by simp
  have d: "damping64 (star_moving MIN_VALUE 0) = star_moving MIN_VALUE 0"
    by (simp add: damping64_def star_moving_def t)
  have "finite_double (st_vx (star_moving MIN_VALUE 0))
   \<and> finite_double (st_vy (star_moving MIN_VALUE 0))
   \<and> st_vx (star_moving MIN_VALUE 0) \<noteq> 0
   \<and> damping64 (star_moving MIN_VALUE 0) = star_moving MIN_VALUE 0
   \<and> \<not> speed (damping64 (star_moving MIN_VALUE 0)) < speed (star_moving MIN_VALUE 0)"
    unfolding d using MIN_VALUE_pos by (simp add: star_moving_def finite_double_tiny finite_double_0)
  then show ?thesis unfolding MIN_VALUE_def .
qed


end
